theory Spec2Isabelle
  imports Complex_Main "HOL-Library.List_Lexorder"
begin

section \<open>Python strings\<close>

text \<open>
  Message texts, note subjects and note bodies are Python \<open>str\<close> values: sequences of
  Unicode code points. A \<open>str\<close> is modelled as the list of the numbers of its code points,
  and \<open>lit\<close> gives the \<open>str\<close> of a literal of the source.
\<close>

type_synonym pystr = "nat list"

definition lit :: "string \<Rightarrow> pystr" where
  "lit s = map of_char s"

definition newline :: nat where
  "newline = 0x0A"

text \<open>
  The code points that \<open>str.strip\<close> and \<open>str.split\<close> take for whitespace (those of
  \<open>str.isspace\<close>).
\<close>

definition isspace :: "nat \<Rightarrow> bool" where
  "isspace c \<longleftrightarrow>
     c \<in> set [0x09, 0x0A, 0x0B, 0x0C, 0x0D, 0x1C, 0x1D, 0x1E, 0x1F, 0x20, 0x85, 0xA0,
              0x1680, 0x2000, 0x2001, 0x2002, 0x2003, 0x2004, 0x2005, 0x2006, 0x2007,
              0x2008, 0x2009, 0x200A, 0x2028, 0x2029, 0x202F, 0x205F, 0x3000]"

text \<open>\<open>s.strip()\<close>: leading and trailing whitespace removed.\<close>

definition strip :: "pystr \<Rightarrow> pystr" where
  "strip s = rev (dropWhile isspace (rev (dropWhile isspace s)))"

text \<open>\<open>s.startswith(p)\<close>.\<close>

definition startswith :: "pystr \<Rightarrow> pystr \<Rightarrow> bool" where
  "startswith s p \<longleftrightarrow> take (length p) s = p"

text \<open>\<open>sub in s\<close> on strings: \<open>sub\<close> occurs as a contiguous substring of \<open>s\<close>.\<close>

fun str_contains :: "pystr \<Rightarrow> pystr \<Rightarrow> bool" where
  "str_contains sub [] = (sub = [])"
| "str_contains sub (c # cs) = (startswith (c # cs) sub \<or> str_contains sub cs)"

text \<open>
  \<open>s.split('\n', 1)\<close>: \<open>None\<close> stands for the one-element list that Python returns
  when \<open>s\<close> has no line break (unpacking it into two names raises \<open>ValueError\<close>).
\<close>

definition split_newline :: "pystr \<Rightarrow> (pystr \<times> pystr) option" where
  "split_newline s =
     (if newline \<in> set s
      then Some (takeWhile (\<lambda>c. c \<noteq> newline) s, tl (dropWhile (\<lambda>c. c \<noteq> newline) s))
      else None)"

text \<open>\<open>s.split()\<close>: the maximal runs of non-whitespace characters, in order.\<close>

fun split_acc :: "pystr \<Rightarrow> pystr \<Rightarrow> pystr list" where
  "split_acc cur [] = (if cur = [] then [] else [cur])"
| "split_acc cur (c # cs) =
     (if isspace c then (if cur = [] then split_acc [] cs else cur # split_acc [] cs)
      else split_acc (cur @ [c]) cs)"

definition split_ws :: "pystr \<Rightarrow> pystr list" where
  "split_ws s = split_acc [] s"

section \<open>Notes and the note scan\<close>

text \<open>
  A note of the account backend, with the keys the bot reads: \<open>id\<close>, \<open>subject\<close>,
  \<open>body\<close> and \<open>isRetired\<close> (read with \<open>note.get('isRetired')\<close>, so a missing key
  counts as not retired).
\<close>

record account_note =
  note_id :: nat
  subject :: pystr
  body :: pystr
  isRetired :: bool

text \<open>\<open>'Summary (cluster {}): '.format(cluster)\<close>\<close>

definition subject_prefix :: "pystr \<Rightarrow> pystr" where
  "subject_prefix cluster = lit ''Summary (cluster '' @ cluster @ lit ''): ''"

text \<open>
  The loop of \<open>get_notes\<close>: retired notes are skipped; a note without the reserved
  prefix is appended to \<open>related_notes\<close> when its subject contains the cluster id; the
  first note with the reserved prefix becomes the summary and ends the loop
  (\<open>break\<close>), so the notes behind it are never looked at.
\<close>

fun scan_notes :: "pystr \<Rightarrow> account_note list \<Rightarrow> account_note list \<Rightarrow> account_note option \<times> account_note list" where
  "scan_notes cluster [] related_notes = (None, related_notes)"
| "scan_notes cluster (n # notes) related_notes =
     (if isRetired n then scan_notes cluster notes related_notes
      else if \<not> startswith (subject n) (subject_prefix cluster) then
        (if str_contains cluster (subject n)
         then scan_notes cluster notes (related_notes @ [n])
         else scan_notes cluster notes related_notes)
      else (Some n, related_notes))"

text \<open>A note counts as the summary of a cluster when it is not retired and carries the prefix.\<close>

definition is_summary :: "pystr \<Rightarrow> account_note \<Rightarrow> bool" where
  "is_summary cluster n \<longleftrightarrow> \<not> isRetired n \<and> startswith (subject n) (subject_prefix cluster)"

definition is_related :: "pystr \<Rightarrow> account_note \<Rightarrow> bool" where
  "is_related cluster n \<longleftrightarrow>
     \<not> isRetired n \<and> \<not> startswith (subject n) (subject_prefix cluster)
     \<and> str_contains cluster (subject n)"

section \<open>Exceptions, events and the state the bot acts on\<close>

text \<open>
  Every exception of the program is an instance of Python's \<open>Exception\<close>. The handlers
  tell \<open>ValueError\<close> (caught by their \<open>except ValueError\<close>) from everything else
  (\<open>KeyError\<close>, \<open>NameError\<close>, \<open>AttributeError\<close>, \<open>TypeError\<close>, network errors),
  which is kept with the name of its class. \<open>ValueError m\<close> carries \<open>str(error)\<close>.
  (\<open>argparse\<close> cannot raise \<open>SystemExit\<close> here: \<open>ErrorRaisingArgumentParser\<close> overrides
  \<open>exit\<close> and \<open>error\<close> to raise \<open>ValueError\<close>.)
\<close>

datatype exn = ValueError pystr | OtherException string

text \<open>
  The \<open>data\<close> dictionary of a message event. \<open>ts\<close> and \<open>thread_ts\<close> are given as the
  numbers that \<open>float\<close> reads from them; timestamps are rational, and the clock is
  passed in. \<open>None\<close> is a missing key.
\<close>

record message_data =
  data_subtype :: "pystr option"
  data_text :: "pystr option"
  data_ts :: "rat option"
  data_channel :: pystr
  data_thread_ts :: "rat option"

record payload =
  data :: "message_data option"

datatype content = Text pystr | Blocks "pystr list"

record chat_message =
  msg_channel :: pystr
  msg_thread_ts :: rat
  msg_content :: content

datatype response = Response (ok: bool)

datatype level = DEBUG | INFO | ERROR

text \<open>
  The state: the module's global \<open>recent_events\<close>, the two Prometheus counters (by
  label), the log, the messages posted to the chat, and the notes the backend holds per
  account. \<open>hydra_writes\<close> is a ghost field: the backend's contents after each of its
  writes, oldest first, so that the states between two backend calls can be spoken about.
\<close>

record world =
  recent_events :: "rat set"
  mention_counter :: "pystr \<Rightarrow> nat"
  comment_counter :: "pystr \<Rightarrow> nat"
  log :: "(level \<times> pystr) list"
  posted :: "chat_message list"
  hydra_notes :: "pystr \<Rightarrow> account_note list"
  hydra_writes :: "(pystr \<Rightarrow> account_note list) list"

text \<open>
  What \<open>get_summary\<close> reads from its collaborators: the labels \<open>managed\<close> and
  \<open>support\<close> of a subscription (\<open>None\<close> is a missing key), the \<open>name\<close> and
  \<open>supportLevel\<close> of an entitlement, and the four fields of a case that go into its
  line.
\<close>

record subscription =
  sub_managed :: "pystr option"
  sub_support :: "pystr option"

record entitlement =
  ent_name :: pystr
  ent_supportLevel :: pystr

record support_case =
  caseNumber :: pystr
  createdDate :: pystr
  caseOwner_name :: pystr
  case_subject :: pystr

text \<open>
  How the collaborators answer during one event. For the two handlers that write:
  the telemetry lookup of a cluster's account
  (\<open>telemetry.ebs_account(subscription=telemetry.subscription(..., labels={'ebs_account'}))\<close>),
  whether each call of the note backend raises, and where the backend puts a new note in
  the list it returns. For \<open>get_summary\<close>: \<open>telemetry.subscription\<close> with its three
  labels, \<open>telemetry.ebs_account\<close> on that subscription, and the backend's
  \<open>get_entitlements\<close>, \<open>get_open_cases\<close> and \<open>get_case_comments\<close> (the latter as
  the text that \<open>str\<close> makes of the comments). For every handler: whether
  \<open>chat_postMessage\<close> raises or returns a response with the given \<open>ok\<close>.
  \<open>dashboard_bases\<close> is the module's list of that name, read from the environment.
\<close>

record collab =
  telemetry_ebs_account :: "pystr \<Rightarrow> exn + pystr"
  get_account_notes_fault :: "exn option"
  post_account_note_fault :: "exn option"
  delete_account_note_fault :: "exn option"
  insert_at :: nat
  chat_outcome :: "exn + bool"
  telemetry_subscription :: "pystr \<Rightarrow> exn + subscription"
  subscription_ebs_account :: "subscription \<Rightarrow> exn + pystr"
  get_entitlements :: "pystr \<Rightarrow> exn + entitlement list"
  get_open_cases :: "pystr \<Rightarrow> exn + support_case list"
  get_case_comments :: "pystr \<Rightarrow> exn + pystr"
  dashboard_bases :: "pystr list"

section \<open>The account backend and the chat client\<close>

text \<open>
  Modelled from the spec: the module \<open>hydra\<close> is not part of the sources. The spec names
  its contract \<open>notes(account)\<close>, \<open>create_note(account, subject, body)\<close> and
  \<open>delete_note(account, note_id)\<close>. A call that raises leaves the backend as it was.
\<close>

definition get_account_notes :: "collab \<Rightarrow> pystr \<Rightarrow> world \<Rightarrow> exn + account_note list" where
  "get_account_notes col account w =
     (case get_account_notes_fault col of
        Some e \<Rightarrow> Inl e
      | None \<Rightarrow> Inr (hydra_notes w account))"

text \<open>
  Modelled from the spec: the backend gives a new note an id of its own; here the one above
  all ids of the account.
\<close>

definition fresh_id :: "account_note list \<Rightarrow> nat" where
  "fresh_id ns = Suc (foldr max (map note_id ns) 0)"

text \<open>
  Modelled from the spec: \<open>create_note\<close> adds one note, not retired, under an id that no
  note of the account has, at the position \<open>insert_at\<close> of the returned order (at the end
  when the position is beyond it).
\<close>

definition post_account_note ::
  "collab \<Rightarrow> pystr \<Rightarrow> pystr \<Rightarrow> pystr \<Rightarrow> world \<Rightarrow> (exn + unit) \<times> world" where
  "post_account_note col account subj bdy w =
     (case post_account_note_fault col of
        Some e \<Rightarrow> (Inl e, w)
      | None \<Rightarrow>
          (let ns = hydra_notes w account;
               new = \<lparr>note_id = fresh_id ns, subject = subj, body = bdy, isRetired = False\<rparr>;
               store = (hydra_notes w)
                 (account := take (insert_at col) ns @ [new] @ drop (insert_at col) ns)
           in (Inr (), w\<lparr>hydra_notes := store, hydra_writes := hydra_writes w @ [store]\<rparr>)))"

text \<open>Modelled from the spec: \<open>delete_note\<close> removes the notes of the account with that id.\<close>

definition delete_account_note ::
  "collab \<Rightarrow> pystr \<Rightarrow> nat \<Rightarrow> world \<Rightarrow> (exn + unit) \<times> world" where
  "delete_account_note col account noteID w =
     (case delete_account_note_fault col of
        Some e \<Rightarrow> (Inl e, w)
      | None \<Rightarrow>
          (let store = (hydra_notes w)
                 (account := filter (\<lambda>n. note_id n \<noteq> noteID) (hydra_notes w account))
           in (Inr (), w\<lparr>hydra_notes := store, hydra_writes := hydra_writes w @ [store]\<rparr>)))"

text \<open>
  Modelled from the spec: the chat client is not part of the sources.
  \<open>web_client.chat_postMessage\<close> posts to the channel and thread it is given; the message
  reaches the thread when the call returns with \<open>ok\<close>, and the handlers return its
  response.
\<close>

definition chat_postMessage ::
  "collab \<Rightarrow> pystr \<Rightarrow> rat \<Rightarrow> content \<Rightarrow> world \<Rightarrow> (exn + response option) \<times> world" where
  "chat_postMessage col channel thread c w =
     (case chat_outcome col of
        Inl e \<Rightarrow> (Inl e, w)
      | Inr b \<Rightarrow>
          (Inr (Some (Response b)),
           if b then w\<lparr>posted := posted w @
                  [\<lparr>msg_channel = channel, msg_thread_ts = thread, msg_content = c\<rparr>]\<rparr>
           else w))"

text \<open>
  The first three lines of every handler: \<open>payload['data']['channel']\<close> and
  \<open>payload['data'].get('thread_ts', payload['data']['ts'])\<close>, whose default is evaluated
  first, so a missing \<open>ts\<close> raises \<open>KeyError\<close> also when \<open>thread_ts\<close> is there.
\<close>

definition reply_target :: "payload \<Rightarrow> exn + (pystr \<times> rat)" where
  "reply_target p =
     (case data p of
        None \<Rightarrow> Inl (OtherException ''TypeError'')
      | Some d \<Rightarrow>
          (case data_ts d of
             None \<Rightarrow> Inl (OtherException ''KeyError'')
           | Some t \<Rightarrow>
               Inr (data_channel d, (case data_thread_ts d of None \<Rightarrow> t | Some tt \<Rightarrow> tt))))"

section \<open>Reading and writing notes\<close>

definition get_notes ::
  "collab \<Rightarrow> pystr \<Rightarrow> pystr \<Rightarrow> world \<Rightarrow> exn + (account_note option \<times> account_note list)" where
  "get_notes col cluster ebs_account w =
     (case get_account_notes col ebs_account w of
        Inl e \<Rightarrow> Inl e
      | Inr notes \<Rightarrow> Inr (scan_notes cluster notes []))"

definition footer :: pystr where
  "footer = [newline, newline] @
     lit ''This summary was created by the cluster-support bot.  Workflow docs in https://github.com/openshift/cluster-support-bot/''"

text \<open>
  \<open>subject, body = body.split('\n', 1)\<close>, with the \<open>except ValueError\<close> branch for a
  text of one line.
\<close>

definition split_subject :: "pystr \<Rightarrow> pystr \<times> pystr" where
  "split_subject b = (case split_newline b of Some sb \<Rightarrow> sb | None \<Rightarrow> (b, []))"

definition inc :: "(pystr \<Rightarrow> nat) \<Rightarrow> pystr \<Rightarrow> (pystr \<Rightarrow> nat)" where
  "inc counter label = counter(label := Suc (counter label))"

text \<open>The \<open>try\<close> block of \<open>handle_set_summary\<close>.\<close>

definition set_summary_try ::
  "collab \<Rightarrow> pystr \<Rightarrow> pystr \<Rightarrow> pystr \<Rightarrow> world \<Rightarrow> (exn + unit) \<times> world" where
  "set_summary_try col cluster subj bdy w =
     (case telemetry_ebs_account col cluster of
        Inl e \<Rightarrow> (Inl e, w)
      | Inr ebs_account \<Rightarrow>
          (case get_notes col cluster ebs_account w of
             Inl e \<Rightarrow> (Inl e, w)
           | Inr (summary, related) \<Rightarrow>
               (case post_account_note col ebs_account (subject_prefix cluster @ subj) bdy w of
                  (Inl e, w1) \<Rightarrow> (Inl e, w1)
                | (Inr u, w1) \<Rightarrow>
                    (case (case summary of
                             None \<Rightarrow> (Inr (), w1)
                           | Some s \<Rightarrow> delete_account_note col ebs_account (note_id s) w1) of
                       (Inl e, w2) \<Rightarrow> (Inl e, w2)
                     | (Inr u, w2) \<Rightarrow>
                         (Inr (), w2\<lparr>comment_counter := inc (comment_counter w2) cluster\<rparr>)))))"

text \<open>
  A handler gets the payload, \<open>args.cluster\<close> (\<open>None\<close> when the namespace has no such
  attribute) and the body, and returns a response, nothing, or raises.
\<close>

type_synonym handler =
  "payload \<Rightarrow> pystr option \<Rightarrow> pystr \<Rightarrow> world \<Rightarrow> (exn + response option) \<times> world"

definition handle_set_summary :: "collab \<Rightarrow> handler" where
  "handle_set_summary col p args_cluster body0 w =
     (case reply_target p of
        Inl e \<Rightarrow> (Inl e, w)
      | Inr (channel, thread) \<Rightarrow>
          (case args_cluster of
             None \<Rightarrow> (Inl (OtherException ''AttributeError''), w)
           | Some cluster \<Rightarrow>
               (let subj = fst (split_subject body0);
                    bdy = strip (strip (snd (split_subject body0)) @ footer)
                in (case set_summary_try col cluster subj bdy w of
                      (Inl (ValueError m), w1) \<Rightarrow>
                        chat_postMessage col channel thread (Text (cluster @ lit '' '' @ m)) w1
                    | (Inl (OtherException x), w1) \<Rightarrow> (Inl (OtherException x), w1)
                    | (Inr u, w1) \<Rightarrow>
                        chat_postMessage col channel thread
                          (Text (lit ''set '' @ cluster @ lit '' summary to:'' @ [newline] @ subj
                                 @ [newline] @ bdy)) w1))))"

text \<open>The \<open>try\<close> block of \<open>handle_comment\<close>.\<close>

definition comment_try ::
  "collab \<Rightarrow> pystr \<Rightarrow> pystr \<Rightarrow> pystr \<Rightarrow> world \<Rightarrow> (exn + unit) \<times> world" where
  "comment_try col cluster subj bdy w =
     (case telemetry_ebs_account col cluster of
        Inl e \<Rightarrow> (Inl e, w)
      | Inr ebs_account \<Rightarrow>
          (case post_account_note col ebs_account (lit ''cluster '' @ cluster @ lit '': '' @ subj) bdy w of
             (Inl e, w1) \<Rightarrow> (Inl e, w1)
           | (Inr u, w1) \<Rightarrow>
               (Inr (), w1\<lparr>comment_counter := inc (comment_counter w1) cluster\<rparr>)))"

definition handle_comment :: "collab \<Rightarrow> handler" where
  "handle_comment col p args_cluster body0 w =
     (case reply_target p of
        Inl e \<Rightarrow> (Inl e, w)
      | Inr (channel, thread) \<Rightarrow>
          (case args_cluster of
             None \<Rightarrow> (Inl (OtherException ''AttributeError''), w)
           | Some cluster \<Rightarrow>
               (let subj = fst (split_subject body0);
                    bdy = snd (split_subject body0)
                in (case comment_try col cluster subj bdy w of
                      (Inl (ValueError m), w1) \<Rightarrow>
                        chat_postMessage col channel thread (Text (cluster @ lit '' '' @ m)) w1
                    | (Inl (OtherException x), w1) \<Rightarrow> (Inl (OtherException x), w1)
                    | (Inr u, w1) \<Rightarrow>
                        chat_postMessage col channel thread
                          (Text (lit ''added comment on '' @ cluster @ lit '':'' @ [newline] @ subj
                                 @ [newline] @ bdy)) w1))))"

section \<open>Reading the summary\<close>

text \<open>\<open>sep.join(xs)\<close>\<close>

fun join :: "pystr \<Rightarrow> pystr list \<Rightarrow> pystr" where
  "join sep [] = []"
| "join sep [x] = x"
| "join sep (x # y # ys) = x @ sep @ join sep (y # ys)"

text \<open>
  \<open>', '.join(sorted(set(e['supportLevel'] for e in entitlements if ...))) or 'None'\<close>:
  the support levels of the entitlements that are kept, each once, in the order of
  \<open>str\<close> (by code points), and \<open>None\<close> when the joined text is empty.
\<close>

definition support_levels :: "(entitlement \<Rightarrow> bool) \<Rightarrow> entitlement list \<Rightarrow> pystr" where
  "support_levels keep entitlements =
     (let joined = join (lit '', '') (sort (remdups (map ent_supportLevel (filter keep entitlements))))
      in if joined = [] then lit ''None'' else joined)"

definition get_entitlements_summary :: "collab \<Rightarrow> pystr \<Rightarrow> exn + pystr" where
  "get_entitlements_summary col ebs_account =
     (case get_entitlements col ebs_account of
        Inl e \<Rightarrow> Inl e
      | Inr entitlements \<Rightarrow>
          (if entitlements = [] then
             Inr (lit ''None.  Customer Experience and Engagement (CEE) will not be able to open support cases.'')
           else
             Inr (lit ''OpenShift: ''
                  @ support_levels (\<lambda>e. str_contains (lit ''OpenShift'') (ent_name e)) entitlements
                  @ lit ''.  Other: ''
                  @ support_levels (\<lambda>e. \<not> str_contains (lit ''OpenShift'') (ent_name e))
                      entitlements)))"

text \<open>
  The list comprehension over the open cases in \<open>get_summary\<close>: a case is kept when the
  text of its comments contains the cluster id; the first call that raises ends it.
\<close>

fun matching_cases :: "collab \<Rightarrow> pystr \<Rightarrow> support_case list \<Rightarrow> exn + support_case list" where
  "matching_cases col cluster [] = Inr []"
| "matching_cases col cluster (c # cs) =
     (case get_case_comments col (caseNumber c) of
        Inl e \<Rightarrow> Inl e
      | Inr comments \<Rightarrow>
          (case matching_cases col cluster cs of
             Inl e \<Rightarrow> Inl e
           | Inr kept \<Rightarrow> Inr (if str_contains cluster comments then c # kept else kept)))"

text \<open>\<open>'Case {caseNumber} ({createdDate}, {caseOwner[name]}): {subject}'.format(**case)\<close>\<close>

definition case_line :: "support_case \<Rightarrow> pystr" where
  "case_line c =
     lit ''Case '' @ caseNumber c @ lit '' ('' @ createdDate c @ lit '', '' @ caseOwner_name c
     @ lit ''): '' @ case_subject c"

definition get_summary ::
  "collab \<Rightarrow> pystr \<Rightarrow> world \<Rightarrow> exn + (pystr list \<times> pystr list \<times> account_note list)" where
  "get_summary col cluster w =
     (case telemetry_subscription col cluster of
        Inl e \<Rightarrow> Inl e
      | Inr subscription \<Rightarrow>
     (case subscription_ebs_account col subscription of
        Inl e \<Rightarrow> Inl e
      | Inr ebs_account \<Rightarrow>
     (case get_notes col cluster ebs_account w of
        Inl e \<Rightarrow> Inl e
      | Inr (summary, related_notes) \<Rightarrow>
     (let lines1 =
            [lit ''Cluster '' @ cluster,
             lit ''Created by Red Hat Customer Portal Account ID '' @ ebs_account,
             lit ''Managed: ''
               @ (case sub_managed subscription of None \<Rightarrow> lit ''Unknown'' | Some m \<Rightarrow> m),
             lit ''Support: ''
               @ (case sub_support subscription of None \<Rightarrow> lit ''None'' | Some s \<Rightarrow> s)]
      in
     (case (if sub_support subscription = None \<or> sub_support subscription = Some []
            then (case get_entitlements_summary col ebs_account of
                    Inl e \<Rightarrow> Inl e
                  | Inr t \<Rightarrow> Inr (lines1 @ [lit ''Entitlements: '' @ t]))
            else Inr lines1) of
        Inl e \<Rightarrow> Inl e
      | Inr lines2 \<Rightarrow>
     (let lines3 =
            lines2 @ map (\<lambda>dashboard_base. lit ''Dashboard: '' @ dashboard_base @ cluster)
                       (dashboard_bases col)
      in
     (case get_open_cases col ebs_account of
        Inl e \<Rightarrow> Inl e
      | Inr open_cases \<Rightarrow>
     (case matching_cases col cluster open_cases of
        Inl e \<Rightarrow> Inl e
      | Inr cases \<Rightarrow>
          Inr (lines3 @ map case_line cases,
               (case summary of None \<Rightarrow> [] | Some s \<Rightarrow> [subject s, body s]),
               related_notes)))))))))"


text \<open>
  \<open>handle_summary\<close> and \<open>handle_detail\<close>. A block list is given by the texts of its
  blocks (\<open>_block_from_text\<close> wraps each text into a section).
\<close>

definition handle_summary :: "collab \<Rightarrow> handler" where
  "handle_summary col p args_cluster body0 w =
     (case reply_target p of
        Inl e \<Rightarrow> (Inl e, w)
      | Inr (channel, thread) \<Rightarrow>
          (case args_cluster of
             None \<Rightarrow> (Inl (OtherException ''AttributeError''), w)
           | Some cluster \<Rightarrow>
               (case get_summary col cluster w of
                  Inl (ValueError m) \<Rightarrow>
                    chat_postMessage col channel thread (Text (cluster @ lit '' '' @ m)) w
                | Inl (OtherException x) \<Rightarrow> (Inl (OtherException x), w)
                | Inr (info, summary, related) \<Rightarrow>
                    chat_postMessage col channel thread (Blocks info) w)))"


section \<open>Intake, deduplication and dispatch\<close>

text \<open>
  What \<open>parser.parse_args\<close> does with the tokens of the command line: it returns a
  namespace (with \<open>func\<close>, the handler of the subcommand, and \<open>cluster\<close>, each possibly
  not set), raises \<open>HelpRequest\<close> from \<open>print_help\<close> (given here by the text that the
  parser in it formats), or raises \<open>ValueError\<close> from \<open>error\<close> or \<open>exit\<close>, whose
  \<open>args\<close> are dictionaries that may hold a \<open>message\<close>.
\<close>

datatype parse_result =
    Namespace "handler option" "pystr option"
  | HelpRequest pystr
  | ParseError "pystr option list"

text \<open>
  The parts fixed when the module is loaded: the bot's id (\<open>bot_mention\<close> is built from
  it), the match of \<open>uuid_re\<close> on a text (its first group), the argument parser, and the
  text of \<open>parser.format_help()\<close>.
\<close>

record config =
  bot_id :: pystr
  uuid_re_match :: "pystr \<Rightarrow> pystr option"
  parse_args :: "pystr list \<Rightarrow> parse_result"
  parser_format_help :: pystr

definition bot_mention :: "config \<Rightarrow> pystr" where
  "bot_mention cfg = lit ''<@'' @ bot_id cfg @ lit ''> ''"

definition handle_uuid_mention :: "config \<Rightarrow> pystr \<Rightarrow> world \<Rightarrow> world" where
  "handle_uuid_mention cfg txt w =
     (case uuid_re_match cfg txt of
        None \<Rightarrow> w
      | Some uuid \<Rightarrow>
          w\<lparr>log := log w @ [(DEBUG, uuid @ lit '' mention'')],
            mention_counter := inc (mention_counter w) uuid\<rparr>)"

definition handle_parse_args_error ::
  "collab \<Rightarrow> payload \<Rightarrow> pystr option list \<Rightarrow> world \<Rightarrow> (exn + response option) \<times> world" where
  "handle_parse_args_error col p error_args w =
     (case reply_target p of
        Inl e \<Rightarrow> (Inl e, w)
      | Inr (channel, thread) \<Rightarrow>
          (if length error_args = 1 then
             (case hd error_args of
                None \<Rightarrow> (Inr None, w\<lparr>log := log w @ [(ERROR, lit ''parse_args error had no message'')]\<rparr>)
              | Some message \<Rightarrow>
                  (if message = []
                   then (Inr None,
                         w\<lparr>log := log w @ [(ERROR, lit ''parse_args error had no message'')]\<rparr>)
                   else chat_postMessage col channel thread (Text message) w))
           else (Inr None, w\<lparr>log := log w @ [(ERROR, lit ''unrecognized parse_args error'')]\<rparr>)))"

text \<open>
  \<open>handle_help\<close>: \<open>parser_help\<close> is the text of \<open>parser.format_help()\<close>, and a
  subparser is given by the text of its own \<open>format_help()\<close>.
\<close>

definition handle_help ::
  "collab \<Rightarrow> pystr \<Rightarrow> payload \<Rightarrow> pystr option \<Rightarrow> world \<Rightarrow> (exn + response option) \<times> world" where
  "handle_help col parser_help p subparser w =
     (case reply_target p of
        Inl e \<Rightarrow> (Inl e, w)
      | Inr (channel, thread) \<Rightarrow>
          chat_postMessage col channel thread
            (Text (case subparser of None \<Rightarrow> parser_help | Some h \<Rightarrow> h)) w)"


text \<open>
  The deduplicator, lines 79 to 85 of \<open>_handle_message\<close>: a timestamp in
  \<open>recent_events\<close> is refused and the set is left alone; any other is added, and the set
  keeps the timestamps above \<open>time.time() - 60*60\<close>.
\<close>

definition admit :: "rat \<Rightarrow> rat \<Rightarrow> rat set \<Rightarrow> bool \<times> rat set" where
  "admit now timestamp recent =
     (if timestamp \<in> recent then (False, recent)
      else (True, {t \<in> insert timestamp recent. t > now - 60 * 60}))"

text \<open>A call that may raise, as a statement: its value is dropped.\<close>

definition raised :: "(exn + 'a) \<times> world \<Rightarrow> exn option \<times> world" where
  "raised r = (case r of (Inl e, w) \<Rightarrow> (Some e, w) | (Inr v, w) \<Rightarrow> (None, w))"

text \<open>
  Lines 89 to 106. \<open>args.func\<close> raises \<open>AttributeError\<close> when the namespace has no
  \<open>func\<close>; a handler is a function, so the test \<open>if not handler\<close> never succeeds.
\<close>

definition dispatch ::
  "config \<Rightarrow> collab \<Rightarrow> payload \<Rightarrow> pystr list \<Rightarrow> pystr \<Rightarrow> world \<Rightarrow> exn option \<times> world" where
  "dispatch cfg col p user_args bdy w =
     (case parse_args cfg user_args of
        HelpRequest h \<Rightarrow> raised (handle_help col (parser_format_help cfg) p (Some h) w)
      | ParseError error_args \<Rightarrow> raised (handle_parse_args_error col p error_args w)
      | Namespace f args_cluster \<Rightarrow>
          (case f of
             None \<Rightarrow> (Some (OtherException ''AttributeError''), w)
           | Some handler \<Rightarrow>
               (case handler p args_cluster bdy w of
                  (Inl e, w1) \<Rightarrow> (Some e, w1)
                | (Inr None, w1) \<Rightarrow> (None, w1)
                | (Inr (Some r), w1) \<Rightarrow>
                    (None, w1\<lparr>log := log w1 @ [(if ok r then DEBUG else ERROR, lit ''response'')]\<rparr>))))"

text \<open>
  \<open>_handle_message\<close>. The branch for a duplicate formats the undefined name
  \<open>message\<close> into its log line, which raises \<open>NameError\<close> where the \<open>return\<close> stands.
\<close>

definition handle_message' ::
  "config \<Rightarrow> collab \<Rightarrow> rat \<Rightarrow> payload \<Rightarrow> world \<Rightarrow> exn option \<times> world" where
  "handle_message' cfg col now p w =
     (case data p of
        None \<Rightarrow> (None, w)
      | Some d \<Rightarrow>
          (if data_subtype d \<noteq> None then (None, w)
           else
             (case data_text d of
                None \<Rightarrow> (None, w)
              | Some txt \<Rightarrow>
                  (if txt = [] then (None, w)
                   else
                     (let w1 = handle_uuid_mention cfg txt w in
                      if \<not> startswith txt (bot_mention cfg) then (None, w1)
                      else
                        (let w2 = w1\<lparr>log := log w1 @ [(DEBUG, lit ''handle_message'')]\<rparr>;
                             timestamp = (case data_ts d of None \<Rightarrow> 0 | Some t \<Rightarrow> t)
                         in (case admit now timestamp (recent_events w2) of
                               (False, recent) \<Rightarrow> (Some (OtherException ''NameError''), w2)
                             | (True, recent) \<Rightarrow>
                                 (case split_newline (strip txt @ [newline]) of
                                    None \<Rightarrow>
                                      (Some (ValueError (lit ''not enough values to unpack'')),
                                       w2\<lparr>recent_events := recent\<rparr>)
                                  | Some (user_arg_line, bdy) \<Rightarrow>
                                      dispatch cfg col p (drop 1 (split_ws user_arg_line)) bdy
                                        (w2\<lparr>recent_events := recent\<rparr>)))))))))"

text \<open>\<open>handle_message\<close>: the \<open>try\<close> around \<open>_handle_message\<close>, with \<open>except Exception\<close>.\<close>

definition handle_message ::
  "config \<Rightarrow> collab \<Rightarrow> rat \<Rightarrow> payload \<Rightarrow> world \<Rightarrow> exn option \<times> world" where
  "handle_message cfg col now p w =
     (case handle_message' cfg col now p w of
        (None, w1) \<Rightarrow> (None, w1)
      | (Some e, w1) \<Rightarrow>
          (None, w1\<lparr>log := log w1 @ [(DEBUG, lit ''uncaught Exception in handle_message'')]\<rparr>))"

text \<open>
  Modelled from the spec: the event-delivery loop belongs to the chat client, which is not
  part of the sources. It hands each message event to the registered callback, together
  with what the clock and the collaborators are at that moment, and an exception that
  leaves the callback ends the delivery.
\<close>

record event =
  ev_collab :: collab
  ev_now :: rat
  ev_payload :: payload

fun deliver ::
  "(event \<Rightarrow> world \<Rightarrow> exn option \<times> world) \<Rightarrow> event list \<Rightarrow> world \<Rightarrow> exn option \<times> world" where
  "deliver callback [] w = (None, w)"
| "deliver callback (ev # evs) w =
     (case callback ev w of
        (Some e, w1) \<Rightarrow> (Some e, w1)
      | (None, w1) \<Rightarrow> deliver callback evs w1)"

definition on_message :: "config \<Rightarrow> event \<Rightarrow> world \<Rightarrow> exn option \<times> world" where
  "on_message cfg ev w = handle_message cfg (ev_collab ev) (ev_now ev) (ev_payload ev) w"

section \<open>Example data\<close>

text \<open>
  Concrete collaborators, states and events, on which the theorems below are instantiated:
  cluster \<open>E\<close> belongs to account \<open>A\<close>, every backend call succeeds, a new note goes to
  the end of the list, and the chat accepts every message.
\<close>

definition ex_note :: "nat \<Rightarrow> pystr \<Rightarrow> pystr \<Rightarrow> account_note" where
  "ex_note i s b = \<lparr>note_id = i, subject = s, body = b, isRetired = False\<rparr>"

definition ex_collab :: collab where
  "ex_collab =
     \<lparr>telemetry_ebs_account =
        (\<lambda>c. if c = lit ''E'' then Inr (lit ''A'') else Inl (ValueError (lit ''unknown cluster''))),
      get_account_notes_fault = None,
      post_account_note_fault = None,
      delete_account_note_fault = None,
      insert_at = 1000,
      chat_outcome = Inr True,
      telemetry_subscription =
        (\<lambda>c. if c = lit ''E'' then Inr \<lparr>sub_managed = None, sub_support = None\<rparr>
             else Inl (ValueError (lit ''unknown cluster''))),
      subscription_ebs_account = (\<lambda>s. Inr (lit ''A'')),
      get_entitlements = (\<lambda>a. Inr []),
      get_open_cases = (\<lambda>a. Inr []),
      get_case_comments = (\<lambda>n. Inr []),
      dashboard_bases = []\<rparr>"

text \<open>The same, with a telemetry service that cannot be reached.\<close>

definition ex_collab_down :: collab where
  "ex_collab_down =
     \<lparr>telemetry_ebs_account = (\<lambda>c. Inl (OtherException ''ConnectionError'')),
      get_account_notes_fault = None,
      post_account_note_fault = None,
      delete_account_note_fault = None,
      insert_at = 1000,
      chat_outcome = Inr True,
      telemetry_subscription =
        (\<lambda>c. Inl (OtherException ''ConnectionError'')),
      subscription_ebs_account = (\<lambda>s. Inr (lit ''A'')),
      get_entitlements = (\<lambda>a. Inr []),
      get_open_cases = (\<lambda>a. Inr []),
      get_case_comments = (\<lambda>n. Inr []),
      dashboard_bases = []\<rparr>"

text \<open>The same as \<open>ex_collab\<close>, with a backend that refuses to delete.\<close>

definition ex_collab_delete_fails :: collab where
  "ex_collab_delete_fails =
     \<lparr>telemetry_ebs_account =
        (\<lambda>c. if c = lit ''E'' then Inr (lit ''A'') else Inl (ValueError (lit ''unknown cluster''))),
      get_account_notes_fault = None,
      post_account_note_fault = None,
      delete_account_note_fault = Some (ValueError (lit ''note is locked'')),
      insert_at = 1000,
      chat_outcome = Inr True,
      telemetry_subscription =
        (\<lambda>c. if c = lit ''E'' then Inr \<lparr>sub_managed = None, sub_support = None\<rparr>
             else Inl (ValueError (lit ''unknown cluster''))),
      subscription_ebs_account = (\<lambda>s. Inr (lit ''A'')),
      get_entitlements = (\<lambda>a. Inr []),
      get_open_cases = (\<lambda>a. Inr []),
      get_case_comments = (\<lambda>n. Inr []),
      dashboard_bases = []\<rparr>"

definition ex_world :: "account_note list \<Rightarrow> world" where
  "ex_world ns =
     \<lparr>recent_events = {},
      mention_counter = (\<lambda>l. 0),
      comment_counter = (\<lambda>l. 0),
      log = [],
      posted = [],
      hydra_notes = (\<lambda>a. if a = lit ''A'' then ns else []),
      hydra_writes = []\<rparr>"

text \<open>
  The answers of the argument parser on the command lines of the examples: no token at
  all gives a namespace without \<open>func\<close> (subcommands are optional), \<open>help\<close> gives its
  handler, \<open>summary E\<close>, \<open>set-summary E\<close> and \<open>comment E\<close> give their handler and the
  cluster, \<open>summary -h\<close> asks for the help of that subcommand. Any other command line is answered here with an error message.
\<close>

definition ex_parse_args :: "collab \<Rightarrow> pystr list \<Rightarrow> parse_result" where
  "ex_parse_args col user_args =
     (if user_args = [] then Namespace None None
      else if user_args = [lit ''help'']
        then Namespace
          (Some (\<lambda>p args_cluster body0.
             handle_help col (lit ''usage: Cluster support bot [-h] ...'') p None)) None
      else if user_args = [lit ''summary'', lit ''E'']
        then Namespace (Some (handle_summary col)) (Some (lit ''E''))
      else if user_args = [lit ''set-summary'', lit ''E'']
        then Namespace (Some (handle_set_summary col)) (Some (lit ''E''))
      else if user_args = [lit ''comment'', lit ''E'']
        then Namespace (Some (handle_comment col)) (Some (lit ''E''))
      else if user_args = [lit ''summary'', lit ''-h'']
        then HelpRequest (lit ''usage: Cluster support bot summary [-h] ID'')
      else ParseError [Some (lit ''invalid choice'')])"

definition ex_config :: "collab \<Rightarrow> config" where
  "ex_config col =
     \<lparr>bot_id = lit ''B'',
      uuid_re_match = (\<lambda>txt. None),
      parse_args = ex_parse_args col,
      parser_format_help = lit ''usage: Cluster support bot [-h] ...''\<rparr>"

definition ex_payload :: "pystr \<Rightarrow> payload" where
  "ex_payload txt =
     \<lparr>data = Some \<lparr>data_subtype = None, data_text = Some txt, data_ts = Some 100,
                   data_channel = lit ''C'', data_thread_ts = None\<rparr>\<rparr>"

section \<open>Facts about the note scan and the backend\<close>

lemma scan_notes_summary:
  "fst (scan_notes cluster ns related) = find (is_summary cluster) ns"
  by (induction ns arbitrary: related) (simp_all add: is_summary_def)

lemma scan_notes_related:
  "snd (scan_notes cluster ns related) =
     related @ filter (is_related cluster) (takeWhile (\<lambda>n. \<not> is_summary cluster n) ns)"
  by (induction ns arbitrary: related) (simp_all add: is_summary_def is_related_def)

lemma scan_notes_found:
  "scan_notes cluster ns related = (s, r) \<Longrightarrow> find (is_summary cluster) ns = s"
  using scan_notes_summary [of cluster ns related] by simp

lemma scan_notes_in_set:
  "scan_notes cluster ns related = (Some s, r) \<Longrightarrow> s \<in> set ns \<and> is_summary cluster s"
  by (auto dest!: scan_notes_found simp add: find_Some_iff)

lemma find_hd_filter: "filter P xs \<noteq> [] \<Longrightarrow> find P xs = Some (hd (filter P xs))"
  by (induction xs) auto

lemma startswith_append: "startswith (p @ s) p"
  by (simp add: startswith_def)

lemma fresh_id_greater: "n \<in> set ns \<Longrightarrow> note_id n < fresh_id ns"
  unfolding fresh_id_def by (induction ns) auto

lemma fresh_note_new: "\<lparr>note_id = fresh_id ns, subject = s, body = b, isRetired = r\<rparr> \<notin> set ns"
  using fresh_id_greater by fastforce

lemma split_subject_line:
  "newline \<notin> set s \<Longrightarrow> split_subject (s @ newline # b) = (s, b)"
  by (induction s) (auto simp add: split_subject_def split_newline_def)

lemma new_note_is_summary:
  "is_summary cluster
     \<lparr>note_id = i, subject = subject_prefix cluster @ subj, body = b, isRetired = False\<rparr>"
  by (simp add: is_summary_def startswith_append)

text \<open>A subject that begins with the letter \<open>c\<close> (code point 99) carries no reserved prefix.\<close>

lemma lowercase_not_summary:
  "\<not> is_summary c \<lparr>note_id = i, subject = 99 # rest, body = b, isRetired = r\<rparr>"
  by (simp add: is_summary_def startswith_def subject_prefix_def lit_def)

lemma find_insert_other:
  "\<not> P new \<Longrightarrow> find P (take k ns @ new # drop k ns) = find P ns"
proof (induction ns arbitrary: k)
  case Nil
  then show ?case by simp
next
  case (Cons n ns)
  then show ?case by (cases k) simp_all
qed

lemma filter_insert_only:
  assumes "R new" and "\<forall>x \<in> set ns. \<not> R x"
  shows "filter R (take k ns @ new # drop k ns) = [new]"
proof -
  have "filter R (take k ns) = []"
    using assms(2) by (auto simp add: filter_empty_conv dest: in_set_takeD)
  moreover have "filter R (drop k ns) = []"
    using assms(2) by (auto simp add: filter_empty_conv dest: in_set_dropD)
  ultimately show ?thesis using assms(1) by simp
qed

lemma filter_old_take: "filter (\<lambda>n. n \<in> set ns) (take k ns) = take k ns"
  by (auto simp add: filter_id_conv dest: in_set_takeD)

lemma filter_old_drop: "filter (\<lambda>n. n \<in> set ns) (drop k ns) = drop k ns"
  by (auto simp add: filter_id_conv dest: in_set_dropD)

lemma single_summary_is_found:
  assumes "length (filter P xs) \<le> 1" and "find P xs = Some s" and "x \<in> set xs" and "P x"
  shows "x = s"
proof -
  from assms(2) have s: "s \<in> set (filter P xs)" by (auto simp add: find_Some_iff)
  from assms(3,4) have x: "x \<in> set (filter P xs)" by simp
  from assms(1) s obtain y where "filter P xs = [y]"
    by (cases "filter P xs") auto
  with s x show ?thesis by simp
qed

section \<open>Facts about the handlers\<close>

text \<open>Posting to the chat leaves the counters and the backend alone.\<close>

lemma chat_postMessage_keeps:
  "comment_counter (snd (chat_postMessage col ch th c w)) = comment_counter w"
  "hydra_notes (snd (chat_postMessage col ch th c w)) = hydra_notes w"
  "hydra_writes (snd (chat_postMessage col ch th c w)) = hydra_writes w"
  by (simp_all add: chat_postMessage_def split: sum.splits)

text \<open>
  For an event that can be answered, what a handler does to the counter and to the backend
  is what its \<open>try\<close> block does.
\<close>

lemma handle_set_summary_world:
  "reply_target p = Inr ct \<Longrightarrow>
   comment_counter (snd (handle_set_summary col p (Some cluster) b w)) =
     comment_counter (snd (set_summary_try col cluster (fst (split_subject b))
        (strip (strip (snd (split_subject b)) @ footer)) w))
   \<and> hydra_notes (snd (handle_set_summary col p (Some cluster) b w)) =
     hydra_notes (snd (set_summary_try col cluster (fst (split_subject b))
        (strip (strip (snd (split_subject b)) @ footer)) w))
   \<and> hydra_writes (snd (handle_set_summary col p (Some cluster) b w)) =
     hydra_writes (snd (set_summary_try col cluster (fst (split_subject b))
        (strip (strip (snd (split_subject b)) @ footer)) w))"
  by (cases ct) (simp add: handle_set_summary_def Let_def chat_postMessage_keeps
      split: prod.splits sum.splits exn.splits)

lemma handle_comment_world:
  "reply_target p = Inr ct \<Longrightarrow>
   comment_counter (snd (handle_comment col p (Some cluster) b w)) =
     comment_counter (snd (comment_try col cluster (fst (split_subject b))
        (snd (split_subject b)) w))
   \<and> hydra_notes (snd (handle_comment col p (Some cluster) b w)) =
     hydra_notes (snd (comment_try col cluster (fst (split_subject b))
        (snd (split_subject b)) w))
   \<and> hydra_writes (snd (handle_comment col p (Some cluster) b w)) =
     hydra_writes (snd (comment_try col cluster (fst (split_subject b))
        (snd (split_subject b)) w))"
  by (cases ct) (simp add: handle_comment_def Let_def chat_postMessage_keeps
      split: prod.splits sum.splits exn.splits)

lemma set_summary_try_counter:
  "comment_counter (snd (set_summary_try col cluster subj bdy w)) =
     (if (case telemetry_ebs_account col cluster of
            Inl e \<Rightarrow> False
          | Inr a \<Rightarrow>
              get_account_notes_fault col = None \<and> post_account_note_fault col = None
              \<and> (find (is_summary cluster) (hydra_notes w a) = None
                   \<or> delete_account_note_fault col = None))
      then inc (comment_counter w) cluster else comment_counter w)"
  by (auto simp add: set_summary_try_def get_notes_def get_account_notes_def
      post_account_note_def delete_account_note_def Let_def
      dest!: scan_notes_found
      split: sum.splits option.splits prod.splits)

lemma comment_try_counter:
  "comment_counter (snd (comment_try col cluster subj bdy w)) =
     (if (case telemetry_ebs_account col cluster of
            Inl e \<Rightarrow> False
          | Inr a \<Rightarrow> post_account_note_fault col = None)
      then inc (comment_counter w) cluster else comment_counter w)"
  by (auto simp add: comment_try_def post_account_note_def Let_def
      split: sum.splits option.splits prod.splits)

text \<open>The notes of the account after a \<open>try\<close> block in which every call succeeded.\<close>

lemma set_summary_try_notes:
  assumes "telemetry_ebs_account col cluster = Inr account"
    and "get_account_notes_fault col = None"
    and "post_account_note_fault col = None"
    and "delete_account_note_fault col = None"
  shows "hydra_notes (snd (set_summary_try col cluster subj bdy w)) account =
     (let ns = hydra_notes w account;
          new = \<lparr>note_id = fresh_id ns, subject = subject_prefix cluster @ subj,
                 body = bdy, isRetired = False\<rparr>;
          ns1 = take (insert_at col) ns @ new # drop (insert_at col) ns
      in case find (is_summary cluster) ns of
           None \<Rightarrow> ns1
         | Some s \<Rightarrow> filter (\<lambda>n. note_id n \<noteq> note_id s) ns1)"
  using assms
  by (auto simp add: set_summary_try_def get_notes_def get_account_notes_def
      post_account_note_def delete_account_note_def Let_def
      dest!: scan_notes_found
      split: sum.splits option.splits prod.splits)

lemma comment_try_notes:
  "hydra_notes (snd (comment_try col cluster subj bdy w)) =
     (case telemetry_ebs_account col cluster of
        Inl e \<Rightarrow> hydra_notes w
      | Inr a \<Rightarrow>
          (case post_account_note_fault col of
             Some e \<Rightarrow> hydra_notes w
           | None \<Rightarrow>
               (hydra_notes w)
                 (a := take (insert_at col) (hydra_notes w a) @
                    \<lparr>note_id = fresh_id (hydra_notes w a),
                     subject = lit ''cluster '' @ cluster @ lit '': '' @ subj,
                     body = bdy, isRetired = False\<rparr> #
                    drop (insert_at col) (hydra_notes w a))))"
  by (simp add: comment_try_def post_account_note_def Let_def
      split: sum.splits option.splits prod.splits)

text \<open>
  With at most one summary before, the new note is the only summary after the old one is
  deleted.
\<close>

lemma replaced_summary_only:
  assumes "length (filter (is_summary cluster) ns) \<le> 1"
    and "new = \<lparr>note_id = fresh_id ns, subject = subject_prefix cluster @ subj,
                 body = bdy, isRetired = False\<rparr>"
  shows "filter (is_summary cluster)
           (case find (is_summary cluster) ns of
              None \<Rightarrow> take k ns @ new # drop k ns
            | Some s \<Rightarrow> filter (\<lambda>n. note_id n \<noteq> note_id s) (take k ns @ new # drop k ns))
         = [new]"
proof (cases "find (is_summary cluster) ns")
  case None
  then have old: "\<forall>x \<in> set ns. \<not> is_summary cluster x"
    by (simp add: find_None_iff)
  have "is_summary cluster new"
    by (simp add: assms(2) new_note_is_summary)
  then have "filter (is_summary cluster) (take k ns @ new # drop k ns) = [new]"
    using old by (rule filter_insert_only)
  then show ?thesis
    using None by simp
next
  case (Some s)
  let ?R = "\<lambda>n. note_id n \<noteq> note_id s \<and> is_summary cluster n"
  from Some have s: "s \<in> set ns" by (auto simp add: find_Some_iff)
  have "note_id new = fresh_id ns" by (simp add: assms(2))
  with s have "note_id new \<noteq> note_id s"
    using fresh_id_greater [of s ns] by simp
  then have new: "?R new"
    by (simp add: assms(2) new_note_is_summary)
  have old: "\<forall>x \<in> set ns. \<not> ?R x"
    using single_summary_is_found [OF assms(1) Some] by blast
  have "filter ?R (take k ns @ new # drop k ns) = [new]"
    using new old by (rule filter_insert_only)
  then have "filter (is_summary cluster)
      (filter (\<lambda>n. note_id n \<noteq> note_id s) (take k ns @ new # drop k ns)) = [new]"
    by (simp only: filter_filter)
  then show ?thesis
    by (simp only: Some option.case)
qed

text \<open>
  Every backend state that the \<open>try\<close> block of \<open>handle_set_summary\<close> writes, and the one
  it ends in, still holds a summary when the one it started from did.
\<close>

lemma set_summary_try_writes:
  assumes "filter (is_summary cluster) (hydra_notes w account) \<noteq> []"
  shows "(\<exists>H. hydra_writes (snd (set_summary_try col cluster subj bdy w)) = hydra_writes w @ H
            \<and> (\<forall>st \<in> set H. filter (is_summary cluster) (st account) \<noteq> []))
         \<and> filter (is_summary cluster)
             (hydra_notes (snd (set_summary_try col cluster subj bdy w)) account) \<noteq> []"
  using assms
  by (auto simp add: set_summary_try_def get_notes_def get_account_notes_def
      post_account_note_def delete_account_note_def Let_def
      new_note_is_summary
      dest!: scan_notes_in_set dest: fresh_id_greater
      split: sum.splits option.splits prod.splits)

lemma set_summary_try_first_write:
  "hydra_writes (snd (set_summary_try col cluster subj bdy w)) = hydra_writes w
   \<or> (\<exists>account rest.
        telemetry_ebs_account col cluster = Inr account
        \<and> hydra_writes (snd (set_summary_try col cluster subj bdy w)) =
            hydra_writes w @
            (hydra_notes w)
              (account := take (insert_at col) (hydra_notes w account) @
                 \<lparr>note_id = fresh_id (hydra_notes w account),
                  subject = subject_prefix cluster @ subj, body = bdy, isRetired = False\<rparr> #
                 drop (insert_at col) (hydra_notes w account)) # rest)"
  by (auto simp add: set_summary_try_def get_notes_def get_account_notes_def
      post_account_note_def delete_account_note_def Let_def
      split: sum.splits option.splits prod.splits)

section \<open>Facts about the intake\<close>

lemma handle_message_returns: "fst (handle_message cfg col now p w) = None"
  by (simp add: handle_message_def split: prod.splits option.splits)

lemma deliver_all:
  "(\<And>ev w. fst (cb ev w) = None) \<Longrightarrow>
   deliver cb evs w = (None, foldl (\<lambda>w ev. snd (cb ev w)) w evs)"
proof (induction evs arbitrary: w)
  case Nil
  then show ?case by simp
next
  case (Cons ev evs)
  have "fst (cb ev w) = None" by (rule Cons.prems)
  then obtain w1 where c: "cb ev w = (None, w1)" by (metis prod.collapse)
  with Cons show ?case by simp
qed

text \<open>
  A message whose timestamp is in \<open>recent_events\<close> gets no further than the
  deduplicator: only the mention counter and the log have changed afterwards.
\<close>

lemma duplicate_not_dispatched:
  assumes "data p = Some d" and "data_subtype d = None" and "data_text d = Some txt"
    and "txt \<noteq> []" and "startswith txt (bot_mention cfg)"
    and "data_ts d = Some t" and "t \<in> recent_events w"
  shows "handle_message cfg col now p w =
     (None, (handle_uuid_mention cfg txt w)
        \<lparr>log := log (handle_uuid_mention cfg txt w) @
           [(DEBUG, lit ''handle_message''), (DEBUG, lit ''uncaught Exception in handle_message'')]\<rparr>)"
proof -
  have "recent_events (handle_uuid_mention cfg txt w) = recent_events w"
    by (simp add: handle_uuid_mention_def split: option.splits)
  with assms show ?thesis
    by (simp add: handle_message_def handle_message'_def admit_def Let_def)
qed

section \<open>Facts about the writes and the replies\<close>

text \<open>The writes of the \<open>try\<close> blocks when every call succeeds, and when not.\<close>

lemma set_summary_try_created:
  assumes "telemetry_ebs_account col cluster = Inr account"
    and "get_account_notes_fault col = None"
    and "post_account_note_fault col = None"
    and "find (is_summary cluster) (hydra_notes w account) = None
         \<or> delete_account_note_fault col = None"
  shows "(\<exists>rest. hydra_writes (snd (set_summary_try col cluster subj bdy w)) =
            hydra_writes w @
            (hydra_notes w)
              (account := take (insert_at col) (hydra_notes w account) @
                 \<lparr>note_id = fresh_id (hydra_notes w account),
                  subject = subject_prefix cluster @ subj, body = bdy, isRetired = False\<rparr> #
                 drop (insert_at col) (hydra_notes w account)) # rest)
     \<and> \<lparr>note_id = fresh_id (hydra_notes w account),
         subject = subject_prefix cluster @ subj, body = bdy, isRetired = False\<rparr>
       \<in> set (hydra_notes (snd (set_summary_try col cluster subj bdy w)) account)"
  using assms
  by (auto simp add: set_summary_try_def get_notes_def get_account_notes_def
      post_account_note_def delete_account_note_def Let_def
      dest!: scan_notes_in_set dest: fresh_id_greater
      split: sum.splits option.splits prod.splits)

lemma comment_try_writes:
  "hydra_writes (snd (comment_try col cluster subj bdy w)) =
     (case telemetry_ebs_account col cluster of
        Inl e \<Rightarrow> hydra_writes w
      | Inr a \<Rightarrow>
          (case post_account_note_fault col of
             Some e \<Rightarrow> hydra_writes w
           | None \<Rightarrow>
               hydra_writes w @
               [(hydra_notes w)
                  (a := take (insert_at col) (hydra_notes w a) @
                     \<lparr>note_id = fresh_id (hydra_notes w a),
                      subject = lit ''cluster '' @ cluster @ lit '': '' @ subj,
                      body = bdy, isRetired = False\<rparr> #
                     drop (insert_at col) (hydra_notes w a))]))"
  by (simp add: comment_try_def post_account_note_def Let_def
      split: sum.splits option.splits prod.splits)









section \<open>Unfolding the definitions on concrete data\<close>

lemmas ex_defs = ex_collab_def ex_collab_down_def ex_collab_delete_fails_def ex_world_def ex_note_def ex_payload_def
  ex_config_def ex_parse_args_def
lemmas str_defs = lit_def newline_def isspace_def strip_def startswith_def split_newline_def
  split_subject_def split_ws_def subject_prefix_def footer_def
lemmas op_defs = get_notes_def get_account_notes_def post_account_note_def
  delete_account_note_def chat_postMessage_def reply_target_def set_summary_try_def
  comment_try_def handle_set_summary_def handle_comment_def fresh_id_def inc_def
  is_summary_def is_related_def Let_def

lemmas intake_defs = handle_message_def handle_message'_def dispatch_def raised_def admit_def
  handle_uuid_mention_def handle_help_def handle_parse_args_error_def bot_mention_def
  on_message_def

section \<open>The summary of a cluster\<close>

subsection \<open>C1: a summary that was set is the summary that is read\<close>

text \<open>
  C1, as the code has it. Let \<open>handle_set_summary\<close> run on the text whose first line is
  \<open>S\<close> and whose remaining lines are \<open>B\<close>, for a cluster whose account is found, with every
  backend call succeeding, on an account that held at most one summary of the cluster.
  Then the next scan of the account's notes returns a summary; its subject is
  \<open>Summary (cluster E): S\<close>, its body is \<open>B\<close> without the whitespace around it, followed by
  the footer, the whole stripped once more; and it is the only summary of the cluster in
  the account. This holds wherever the backend places the new note in its list.
\<close>

theorem set_summary_then_resolve:
  assumes "reply_target p = Inr ct"
    and "telemetry_ebs_account col cluster = Inr account"
    and "get_account_notes_fault col = None"
    and "post_account_note_fault col = None"
    and "delete_account_note_fault col = None"
    and "get_account_notes_fault col1 = None"
    and "newline \<notin> set S"
    and "length (filter (is_summary cluster) (hydra_notes w account)) \<le> 1"
  shows "\<exists>n related.
           get_notes col1 cluster account
             (snd (handle_set_summary col p (Some cluster) (S @ newline # B) w))
             = Inr (Some n, related)
         \<and> subject n = lit ''Summary (cluster '' @ cluster @ lit ''): '' @ S
         \<and> body n = strip (strip B @ footer)
         \<and> filter (is_summary cluster)
             (hydra_notes (snd (handle_set_summary col p (Some cluster) (S @ newline # B) w))
                account) = [n]"
proof -
  let ?w1 = "snd (handle_set_summary col p (Some cluster) (S @ newline # B) w)"
  let ?ns = "hydra_notes w account"
  let ?new = "\<lparr>note_id = fresh_id ?ns, subject = subject_prefix cluster @ S,
                body = strip (strip B @ footer), isRetired = False\<rparr>"
  have sp: "split_subject (S @ newline # B) = (S, B)"
    using assms(7) by (rule split_subject_line)
  have "hydra_notes ?w1 account =
      hydra_notes (snd (set_summary_try col cluster S (strip (strip B @ footer)) w)) account"
    using handle_set_summary_world [OF assms(1), of col cluster "S @ newline # B" w] sp
    by simp
  then have stored: "hydra_notes ?w1 account =
      (case find (is_summary cluster) ?ns of
         None \<Rightarrow> take (insert_at col) ?ns @ ?new # drop (insert_at col) ?ns
       | Some s \<Rightarrow> filter (\<lambda>n. note_id n \<noteq> note_id s)
                    (take (insert_at col) ?ns @ ?new # drop (insert_at col) ?ns))"
    using set_summary_try_notes [OF assms(2,3,4,5), of S "strip (strip B @ footer)" w]
    by (simp add: Let_def)
  have only: "filter (is_summary cluster) (hydra_notes ?w1 account) = [?new]"
    unfolding stored using assms(8) by (rule replaced_summary_only) simp
  then have "find (is_summary cluster) (hydra_notes ?w1 account) = Some ?new"
    using find_hd_filter [of "is_summary cluster" "hydra_notes ?w1 account"] by simp
  then have "fst (scan_notes cluster (hydra_notes ?w1 account) []) = Some ?new"
    by (simp add: scan_notes_summary)
  then have "scan_notes cluster (hydra_notes ?w1 account) [] =
      (Some ?new, snd (scan_notes cluster (hydra_notes ?w1 account) []))"
    by (metis prod.collapse)
  then have "get_notes col1 cluster account ?w1 =
      Inr (Some ?new, snd (scan_notes cluster (hydra_notes ?w1 account) []))"
    using assms(6) by (simp add: get_notes_def get_account_notes_def)
  with only show ?thesis
    by (intro exI [of _ ?new] exI [of _ "snd (scan_notes cluster (hydra_notes ?w1 account) [])"])
       (simp add: subject_prefix_def)
qed

text \<open>
  The theorem above at cluster \<open>E\<close>, subject \<open>S\<close> and the body \<open>B\<close> between a no-break
  space (U+00A0) and a next-line character (U+0085), both of which \<open>strip\<close> removes, on
  an account that holds one older summary: the scan returns the new note, with the body
  \<open>B\<close> and the footer.
\<close>

theorem set_summary_then_resolve_witness:
  "reply_target (ex_payload []) = Inr (lit ''C'', 100)
   \<and> telemetry_ebs_account ex_collab (lit ''E'') = Inr (lit ''A'')
   \<and> newline \<notin> set (lit ''S'')
   \<and> length (filter (is_summary (lit ''E''))
        (hydra_notes (ex_world [ex_note 1 (lit ''Summary (cluster E): old'') (lit ''x'')])
           (lit ''A''))) \<le> 1
   \<and> get_notes ex_collab (lit ''E'') (lit ''A'')
       (snd (handle_set_summary ex_collab (ex_payload []) (Some (lit ''E''))
          (lit ''S'' @ newline # 0xA0 # lit ''B'' @ [0x85])
          (ex_world [ex_note 1 (lit ''Summary (cluster E): old'') (lit ''x'')]))) =
     Inr (Some (ex_note 2 (lit ''Summary (cluster E): S'') (lit ''B'' @ footer)), [])"
  using set_summary_then_resolve [of "ex_payload []" "(lit ''C'', 100)" ex_collab "lit ''E''"
      "lit ''A''" ex_collab "lit ''S''"
      "ex_world [ex_note 1 (lit ''Summary (cluster E): old'') (lit ''x'')]"
      "0xA0 # lit ''B'' @ [0x85]"]
  by (simp add: ex_defs str_defs op_defs)

text \<open>
  C1 as it is worded fails in two ways. A body with a leading blank is stored without it,
  so the stored body is not \<open>B\<close> followed by the footer (whether the footer is taken with
  or without its two line breaks). And on an account that already holds two summaries of
  the cluster, with a backend that lists a new note last, only the first old summary is
  deleted and the scan returns the second old one, not the note just written.
\<close>

theorem set_summary_then_resolve_counterexample:
  "get_notes ex_collab (lit ''E'') (lit ''A'')
     (snd (handle_set_summary ex_collab (ex_payload []) (Some (lit ''E'')) (lit ''S'' @ newline # lit '' B'')
        (ex_world []))) =
     Inr (Some (ex_note 1 (lit ''Summary (cluster E): S'') (lit ''B'' @ footer)), [])
   \<and> lit ''B'' @ footer \<noteq> lit '' B'' @ footer
   \<and> lit ''B'' @ footer \<noteq> lit '' B'' @ drop 2 footer
   \<and> get_notes ex_collab (lit ''E'') (lit ''A'')
       (snd (handle_set_summary ex_collab (ex_payload []) (Some (lit ''E'')) (lit ''S'' @ newline # lit ''B'')
          (ex_world [ex_note 1 (lit ''Summary (cluster E): one'') (lit ''x''),
                     ex_note 2 (lit ''Summary (cluster E): two'') (lit ''y'')]))) =
     Inr (Some (ex_note 2 (lit ''Summary (cluster E): two'') (lit ''y'')), [])"
  by (simp add: ex_defs str_defs op_defs)

subsection \<open>C2: the old summary goes only after the new one is there\<close>

text \<open>
  C2: if the account holds a summary of the cluster when \<open>handle_set_summary\<close> starts,
  then every state the backend passes through during the call holds one, and so does the
  state the call ends in, whichever of the calls fails. The writes of the call come after
  the writes that were there before, and the first of them is the creation of the new note:
  nothing is deleted before it.
\<close>

theorem set_summary_keeps_a_summary:
  assumes "filter (is_summary cluster) (hydra_notes w account) \<noteq> []"
  shows "take (length (hydra_writes w))
           (hydra_writes (snd (handle_set_summary col p (Some cluster) b w))) = hydra_writes w
     \<and> (\<forall>st \<in> set (drop (length (hydra_writes w))
                      (hydra_writes (snd (handle_set_summary col p (Some cluster) b w)))).
           filter (is_summary cluster) (st account) \<noteq> [])
     \<and> filter (is_summary cluster)
         (hydra_notes (snd (handle_set_summary col p (Some cluster) b w)) account) \<noteq> []
     \<and> (drop (length (hydra_writes w))
           (hydra_writes (snd (handle_set_summary col p (Some cluster) b w))) \<noteq> [] \<longrightarrow>
         (\<exists>a. telemetry_ebs_account col cluster = Inr a
            \<and> hd (drop (length (hydra_writes w))
                  (hydra_writes (snd (handle_set_summary col p (Some cluster) b w)))) =
               (hydra_notes w)
                 (a := take (insert_at col) (hydra_notes w a) @
                    \<lparr>note_id = fresh_id (hydra_notes w a),
                     subject = subject_prefix cluster @ fst (split_subject b),
                     body = strip (strip (snd (split_subject b)) @ footer),
                     isRetired = False\<rparr> #
                    drop (insert_at col) (hydra_notes w a))))"
proof (cases "reply_target p")
  case (Inl e)
  then show ?thesis using assms by (simp add: handle_set_summary_def)
next
  case (Inr ct)
  let ?subj = "fst (split_subject b)"
  let ?bdy = "strip (strip (snd (split_subject b)) @ footer)"
  let ?w1 = "snd (set_summary_try col cluster ?subj ?bdy w)"
  note hw = handle_set_summary_world [OF Inr, of col cluster b w]
  from set_summary_try_writes [OF assms, of col ?subj ?bdy]
  obtain H where H: "hydra_writes ?w1 = hydra_writes w @ H"
    and Hs: "\<forall>st \<in> set H. filter (is_summary cluster) (st account) \<noteq> []"
    and fin: "filter (is_summary cluster) (hydra_notes ?w1 account) \<noteq> []"
    by blast
  have first: "H \<noteq> [] \<longrightarrow>
      (\<exists>a. telemetry_ebs_account col cluster = Inr a
         \<and> hd H = (hydra_notes w)
             (a := take (insert_at col) (hydra_notes w a) @
                \<lparr>note_id = fresh_id (hydra_notes w a),
                 subject = subject_prefix cluster @ ?subj, body = ?bdy, isRetired = False\<rparr> #
                drop (insert_at col) (hydra_notes w a)))"
    using set_summary_try_first_write [of col cluster ?subj ?bdy w] H by auto
  show ?thesis
    using H Hs fin first by (simp add: hw)
qed

text \<open>
  The theorem above on a backend that accepts the new note and then refuses to delete the
  old one: the call makes one write, after which the account holds both summaries.
\<close>

theorem set_summary_keeps_a_summary_witness:
  "filter (is_summary (lit ''E''))
     (hydra_notes (ex_world [ex_note 1 (lit ''Summary (cluster E): old'') (lit ''x'')]) (lit ''A'')) \<noteq> []
   \<and> hydra_writes (snd (handle_set_summary ex_collab_delete_fails (ex_payload []) (Some (lit ''E''))
        (lit ''S'' @ newline # lit ''B'') (ex_world [ex_note 1 (lit ''Summary (cluster E): old'') (lit ''x'')])))
     = [\<lambda>a. if a = lit ''A''
             then [ex_note 1 (lit ''Summary (cluster E): old'') (lit ''x''),
                   ex_note 2 (lit ''Summary (cluster E): S'') (lit ''B'' @ footer)]
             else []]
   \<and> filter (is_summary (lit ''E''))
       (hydra_notes (snd (handle_set_summary ex_collab_delete_fails (ex_payload []) (Some (lit ''E''))
          (lit ''S'' @ newline # lit ''B'') (ex_world [ex_note 1 (lit ''Summary (cluster E): old'') (lit ''x'')])))
        (lit ''A'')) \<noteq> []"
  using set_summary_keeps_a_summary [of "lit ''E''"
      "ex_world [ex_note 1 (lit ''Summary (cluster E): old'') (lit ''x'')]" "lit ''A''"
      ex_collab_delete_fails "ex_payload []" "lit ''S'' @ newline # lit ''B''"]
  by (auto simp add: ex_defs str_defs op_defs)

subsection \<open>C4: the first of several summaries wins\<close>

text \<open>
  C4: when the backend returns a list with two or more notes that are not retired and
  carry the reserved prefix of the cluster, \<open>get_notes\<close> returns normally, and its summary
  is the first of these notes in the order of the list.
\<close>

theorem get_notes_first_summary_wins:
  assumes "get_account_notes_fault col = None"
    and "2 \<le> length (filter (is_summary cluster) (hydra_notes w account))"
  shows "get_notes col cluster account w =
           Inr (Some (hd (filter (is_summary cluster) (hydra_notes w account))),
                filter (is_related cluster)
                  (takeWhile (\<lambda>n. \<not> is_summary cluster n) (hydra_notes w account)))"
proof -
  let ?ns = "hydra_notes w account"
  from assms(2) have "filter (is_summary cluster) ?ns \<noteq> []" by auto
  then have "fst (scan_notes cluster ?ns []) = Some (hd (filter (is_summary cluster) ?ns))"
    by (simp add: scan_notes_summary find_hd_filter)
  moreover have "snd (scan_notes cluster ?ns []) =
      filter (is_related cluster) (takeWhile (\<lambda>n. \<not> is_summary cluster n) ?ns)"
    by (simp add: scan_notes_related)
  ultimately have "scan_notes cluster ?ns [] =
      (Some (hd (filter (is_summary cluster) ?ns)),
       filter (is_related cluster) (takeWhile (\<lambda>n. \<not> is_summary cluster n) ?ns))"
    by (metis prod.collapse)
  with assms(1) show ?thesis
    by (simp add: get_notes_def get_account_notes_def)
qed

text \<open>
  The theorem above on a list with a comment and two summaries.
\<close>

theorem get_notes_first_summary_wins_witness:
  "get_account_notes_fault ex_collab = None
   \<and> 2 \<le> length (filter (is_summary (lit ''E''))
            (hydra_notes (ex_world [ex_note 1 (lit ''cluster E: disk full'') (lit ''z''),
                                    ex_note 2 (lit ''Summary (cluster E): one'') (lit ''x''),
                                    ex_note 3 (lit ''Summary (cluster E): two'') (lit ''y'')]) (lit ''A'')))
   \<and> get_notes ex_collab (lit ''E'') (lit ''A'')
       (ex_world [ex_note 1 (lit ''cluster E: disk full'') (lit ''z''),
                  ex_note 2 (lit ''Summary (cluster E): one'') (lit ''x''),
                  ex_note 3 (lit ''Summary (cluster E): two'') (lit ''y'')]) =
     Inr (Some (ex_note 2 (lit ''Summary (cluster E): one'') (lit ''x'')),
          [ex_note 1 (lit ''cluster E: disk full'') (lit ''z'')])"
  using get_notes_first_summary_wins [of ex_collab "lit ''E''"
      "ex_world [ex_note 1 (lit ''cluster E: disk full'') (lit ''z''),
                 ex_note 2 (lit ''Summary (cluster E): one'') (lit ''x''),
                 ex_note 3 (lit ''Summary (cluster E): two'') (lit ''y'')]" "lit ''A''"]
  by (simp add: ex_defs str_defs op_defs)

subsection \<open>C5: notes that mention the cluster\<close>

text \<open>
  C5 at a list in which a comment on the cluster stands behind the summary: the loop has
  ended at the summary, so the comment, which is not retired, contains the cluster id and
  does not carry the reserved prefix, is missing from the related notes. With the same two
  notes in the other order it is among them.
\<close>

theorem get_notes_skips_comment_behind_summary:
  "is_related (lit ''E'') (ex_note 2 (lit ''cluster E: disk full'') (lit ''y''))
   \<and> get_notes ex_collab (lit ''E'') (lit ''A'')
       (ex_world [ex_note 1 (lit ''Summary (cluster E): old'') (lit ''x''),
                  ex_note 2 (lit ''cluster E: disk full'') (lit ''y'')]) =
     Inr (Some (ex_note 1 (lit ''Summary (cluster E): old'') (lit ''x'')), [])
   \<and> get_notes ex_collab (lit ''E'') (lit ''A'')
       (ex_world [ex_note 2 (lit ''cluster E: disk full'') (lit ''y''),
                  ex_note 1 (lit ''Summary (cluster E): old'') (lit ''x'')]) =
     Inr (Some (ex_note 1 (lit ''Summary (cluster E): old'') (lit ''x'')),
          [ex_note 2 (lit ''cluster E: disk full'') (lit ''y'')])"
  by (simp add: ex_defs str_defs op_defs)

subsection \<open>C6: a comment leaves the other notes alone\<close>

text \<open>
  C6: let \<open>handle_comment\<close> run on the text whose first line is \<open>S\<close> and whose remaining
  lines are \<open>B\<close>. When the account is found and the backend accepts the note, the account's
  list afterwards is the list before with one note added, whose subject is
  \<open>cluster E: S\<close> and whose body is \<open>B\<close>. In every case the notes that were there before
  are all still there, unchanged and in their order, in every account; the scan finds the
  same summary as before, for every cluster and account; and the subject of a comment
  carries the reserved prefix of no cluster.
\<close>

theorem add_comment_touches_no_note:
  assumes "reply_target p = Inr ct" and "newline \<notin> set S"
  shows "(\<forall>a. telemetry_ebs_account col cluster = Inr a \<and> post_account_note_fault col = None \<longrightarrow>
            hydra_notes (snd (handle_comment col p (Some cluster) (S @ newline # B) w)) =
              (hydra_notes w)
                (a := take (insert_at col) (hydra_notes w a) @
                   \<lparr>note_id = fresh_id (hydra_notes w a),
                    subject = lit ''cluster '' @ cluster @ lit '': '' @ S,
                    body = B, isRetired = False\<rparr> #
                   drop (insert_at col) (hydra_notes w a)))
     \<and> (\<forall>a. filter (\<lambda>n. n \<in> set (hydra_notes w a))
               (hydra_notes (snd (handle_comment col p (Some cluster) (S @ newline # B) w)) a)
             = hydra_notes w a)
     \<and> (\<forall>c a. fst (scan_notes c
                  (hydra_notes (snd (handle_comment col p (Some cluster) (S @ newline # B) w)) a) [])
               = fst (scan_notes c (hydra_notes w a) []))
     \<and> (\<forall>c. \<not> startswith (lit ''cluster '' @ cluster @ lit '': '' @ S) (subject_prefix c))"
proof -
  let ?w1 = "snd (handle_comment col p (Some cluster) (S @ newline # B) w)"
  have sp: "split_subject (S @ newline # B) = (S, B)"
    using assms(2) by (rule split_subject_line)
  have stored: "hydra_notes ?w1 =
     (case telemetry_ebs_account col cluster of
        Inl e \<Rightarrow> hydra_notes w
      | Inr a \<Rightarrow>
          (case post_account_note_fault col of
             Some e \<Rightarrow> hydra_notes w
           | None \<Rightarrow>
               (hydra_notes w)
                 (a := take (insert_at col) (hydra_notes w a) @
                    \<lparr>note_id = fresh_id (hydra_notes w a),
                     subject = lit ''cluster '' @ cluster @ lit '': '' @ S,
                     body = B, isRetired = False\<rparr> #
                    drop (insert_at col) (hydra_notes w a))))"
    using handle_comment_world [OF assms(1), of col cluster "S @ newline # B" w] sp
    by (simp add: comment_try_notes)
  have c1: "\<forall>a. telemetry_ebs_account col cluster = Inr a \<and> post_account_note_fault col = None \<longrightarrow>
            hydra_notes ?w1 =
              (hydra_notes w)
                (a := take (insert_at col) (hydra_notes w a) @
                   \<lparr>note_id = fresh_id (hydra_notes w a),
                    subject = lit ''cluster '' @ cluster @ lit '': '' @ S,
                    body = B, isRetired = False\<rparr> #
                   drop (insert_at col) (hydra_notes w a))"
    by (simp add: stored)
  have c2: "\<forall>a. filter (\<lambda>n. n \<in> set (hydra_notes w a)) (hydra_notes ?w1 a) = hydra_notes w a"
    by (simp add: stored filter_old_take filter_old_drop fresh_note_new
        split: sum.splits option.splits)
  have c3: "\<forall>c a. fst (scan_notes c (hydra_notes ?w1 a) []) = fst (scan_notes c (hydra_notes w a) [])"
    by (simp add: stored scan_notes_summary find_insert_other lowercase_not_summary lit_def
        split: sum.splits option.splits)
  have c4: "\<forall>c. \<not> startswith (lit ''cluster '' @ cluster @ lit '': '' @ S) (subject_prefix c)"
    by (simp add: startswith_def subject_prefix_def lit_def)
  from c1 c2 c3 c4 show ?thesis by blast
qed

text \<open>
  The theorem above for a comment on cluster \<open>E\<close>, whose account holds a summary.
\<close>

theorem add_comment_touches_no_note_witness:
  "reply_target (ex_payload []) = Inr (lit ''C'', 100) \<and> newline \<notin> set (lit ''disk full'')
   \<and> telemetry_ebs_account ex_collab (lit ''E'') = Inr (lit ''A'')
   \<and> post_account_note_fault ex_collab = None
   \<and> hydra_notes (snd (handle_comment ex_collab (ex_payload []) (Some (lit ''E''))
        (lit ''disk full'' @ newline # lit ''since monday'')
        (ex_world [ex_note 1 (lit ''Summary (cluster E): old'') (lit ''x'')])))
     = (hydra_notes (ex_world [ex_note 1 (lit ''Summary (cluster E): old'') (lit ''x'')]))
         (lit ''A'' := [ex_note 1 (lit ''Summary (cluster E): old'') (lit ''x''),
                    ex_note 2 (lit ''cluster E: disk full'') (lit ''since monday'')])
   \<and> fst (scan_notes (lit ''E'')
        (hydra_notes (snd (handle_comment ex_collab (ex_payload []) (Some (lit ''E''))
           (lit ''disk full'' @ newline # lit ''since monday'')
           (ex_world [ex_note 1 (lit ''Summary (cluster E): old'') (lit ''x'')]))) (lit ''A'')) [])
     = Some (ex_note 1 (lit ''Summary (cluster E): old'') (lit ''x''))"
  using add_comment_touches_no_note [of "ex_payload []" "(lit ''C'', 100)" "lit ''disk full''"
      ex_collab "lit ''E''" "lit ''since monday''"
      "ex_world [ex_note 1 (lit ''Summary (cluster E): old'') (lit ''x'')]"]
  by (simp add: ex_defs str_defs op_defs numeral_2_eq_2)

subsection \<open>C9: the comment counter\<close>

text \<open>
  C9: for an event that can be answered, \<open>handle_set_summary\<close> raises the cluster's count
  by exactly one when the account was found, the notes were read, the new note was created
  and the old summary, if there was one, was deleted; the call has then written to the
  backend, its first write being the creation of the new note, and that note is in the
  account. In every other case (the lookup fails, or the backend refuses a call) the
  counter is what it was. \<open>handle_comment\<close> raises the cluster's count by exactly one when
  the account was found and the backend accepted the note; the backend then holds the new
  note and this is the one write of the call. In every other case the counter, the notes
  and the writes are what they were. So a count is never raised without a write of the
  backend that succeeded.
\<close>

theorem comment_counter_counts_successes:
  assumes "reply_target p = Inr ct"
  shows "(case telemetry_ebs_account col cluster of
            Inl e \<Rightarrow>
              comment_counter (snd (handle_set_summary col p (Some cluster) b w)) =
                comment_counter w
          | Inr a \<Rightarrow>
              (if get_account_notes_fault col = None \<and> post_account_note_fault col = None
                  \<and> (find (is_summary cluster) (hydra_notes w a) = None
                       \<or> delete_account_note_fault col = None)
               then
                 comment_counter (snd (handle_set_summary col p (Some cluster) b w)) =
                   (comment_counter w)(cluster := Suc (comment_counter w cluster))
                 \<and> (\<exists>rest. hydra_writes (snd (handle_set_summary col p (Some cluster) b w)) =
                       hydra_writes w @
                       (hydra_notes w)
                         (a := take (insert_at col) (hydra_notes w a) @
                            \<lparr>note_id = fresh_id (hydra_notes w a),
                             subject = subject_prefix cluster @ fst (split_subject b),
                             body = strip (strip (snd (split_subject b)) @ footer),
                             isRetired = False\<rparr> #
                            drop (insert_at col) (hydra_notes w a)) # rest)
                 \<and> \<lparr>note_id = fresh_id (hydra_notes w a),
                     subject = subject_prefix cluster @ fst (split_subject b),
                     body = strip (strip (snd (split_subject b)) @ footer),
                     isRetired = False\<rparr>
                   \<in> set (hydra_notes (snd (handle_set_summary col p (Some cluster) b w)) a)
               else
                 comment_counter (snd (handle_set_summary col p (Some cluster) b w)) =
                   comment_counter w))
     \<and> (case telemetry_ebs_account col cluster of
            Inl e \<Rightarrow>
              comment_counter (snd (handle_comment col p (Some cluster) b w)) = comment_counter w
              \<and> hydra_notes (snd (handle_comment col p (Some cluster) b w)) = hydra_notes w
              \<and> hydra_writes (snd (handle_comment col p (Some cluster) b w)) = hydra_writes w
          | Inr a \<Rightarrow>
              (if post_account_note_fault col = None
               then
                 comment_counter (snd (handle_comment col p (Some cluster) b w)) =
                   (comment_counter w)(cluster := Suc (comment_counter w cluster))
                 \<and> hydra_notes (snd (handle_comment col p (Some cluster) b w)) =
                     (hydra_notes w)
                       (a := take (insert_at col) (hydra_notes w a) @
                          \<lparr>note_id = fresh_id (hydra_notes w a),
                           subject = lit ''cluster '' @ cluster @ lit '': '' @ fst (split_subject b),
                           body = snd (split_subject b), isRetired = False\<rparr> #
                          drop (insert_at col) (hydra_notes w a))
                 \<and> hydra_writes (snd (handle_comment col p (Some cluster) b w)) =
                     hydra_writes w @ [hydra_notes (snd (handle_comment col p (Some cluster) b w))]
               else
                 comment_counter (snd (handle_comment col p (Some cluster) b w)) =
                   comment_counter w
                 \<and> hydra_notes (snd (handle_comment col p (Some cluster) b w)) = hydra_notes w
                 \<and> hydra_writes (snd (handle_comment col p (Some cluster) b w)) =
                     hydra_writes w))"
proof -
  note s = handle_set_summary_world [OF assms, of col cluster b w]
  note c = handle_comment_world [OF assms, of col cluster b w]
  have a: "case telemetry_ebs_account col cluster of
            Inl e \<Rightarrow>
              comment_counter (snd (handle_set_summary col p (Some cluster) b w)) =
                comment_counter w
          | Inr a \<Rightarrow>
              (if get_account_notes_fault col = None \<and> post_account_note_fault col = None
                  \<and> (find (is_summary cluster) (hydra_notes w a) = None
                       \<or> delete_account_note_fault col = None)
               then
                 comment_counter (snd (handle_set_summary col p (Some cluster) b w)) =
                   (comment_counter w)(cluster := Suc (comment_counter w cluster))
                 \<and> (\<exists>rest. hydra_writes (snd (handle_set_summary col p (Some cluster) b w)) =
                       hydra_writes w @
                       (hydra_notes w)
                         (a := take (insert_at col) (hydra_notes w a) @
                            \<lparr>note_id = fresh_id (hydra_notes w a),
                             subject = subject_prefix cluster @ fst (split_subject b),
                             body = strip (strip (snd (split_subject b)) @ footer),
                             isRetired = False\<rparr> #
                            drop (insert_at col) (hydra_notes w a)) # rest)
                 \<and> \<lparr>note_id = fresh_id (hydra_notes w a),
                     subject = subject_prefix cluster @ fst (split_subject b),
                     body = strip (strip (snd (split_subject b)) @ footer),
                     isRetired = False\<rparr>
                   \<in> set (hydra_notes (snd (handle_set_summary col p (Some cluster) b w)) a)
               else
                 comment_counter (snd (handle_set_summary col p (Some cluster) b w)) =
                   comment_counter w)"
  proof (cases "telemetry_ebs_account col cluster")
    case (Inl e)
    then show ?thesis
      by (simp add: s set_summary_try_counter)
  next
    case (Inr a)
    show ?thesis
    proof (cases "get_account_notes_fault col = None \<and> post_account_note_fault col = None
                  \<and> (find (is_summary cluster) (hydra_notes w a) = None
                       \<or> delete_account_note_fault col = None)")
      case True
      then have g: "get_account_notes_fault col = None"
        and q: "post_account_note_fault col = None"
        and d: "find (is_summary cluster) (hydra_notes w a) = None
                \<or> delete_account_note_fault col = None"
        by simp_all
      from set_summary_try_created [OF Inr g q d, of "fst (split_subject b)"
          "strip (strip (snd (split_subject b)) @ footer)"]
      show ?thesis
        using Inr True by (simp add: s set_summary_try_counter inc_def)
    next
      case False
      then show ?thesis
        using Inr by (auto simp add: s set_summary_try_counter)
    qed
  qed
  have b: "case telemetry_ebs_account col cluster of
            Inl e \<Rightarrow>
              comment_counter (snd (handle_comment col p (Some cluster) b w)) = comment_counter w
              \<and> hydra_notes (snd (handle_comment col p (Some cluster) b w)) = hydra_notes w
              \<and> hydra_writes (snd (handle_comment col p (Some cluster) b w)) = hydra_writes w
          | Inr a \<Rightarrow>
              (if post_account_note_fault col = None
               then
                 comment_counter (snd (handle_comment col p (Some cluster) b w)) =
                   (comment_counter w)(cluster := Suc (comment_counter w cluster))
                 \<and> hydra_notes (snd (handle_comment col p (Some cluster) b w)) =
                     (hydra_notes w)
                       (a := take (insert_at col) (hydra_notes w a) @
                          \<lparr>note_id = fresh_id (hydra_notes w a),
                           subject = lit ''cluster '' @ cluster @ lit '': '' @ fst (split_subject b),
                           body = snd (split_subject b), isRetired = False\<rparr> #
                          drop (insert_at col) (hydra_notes w a))
                 \<and> hydra_writes (snd (handle_comment col p (Some cluster) b w)) =
                     hydra_writes w @ [hydra_notes (snd (handle_comment col p (Some cluster) b w))]
               else
                 comment_counter (snd (handle_comment col p (Some cluster) b w)) =
                   comment_counter w
                 \<and> hydra_notes (snd (handle_comment col p (Some cluster) b w)) = hydra_notes w
                 \<and> hydra_writes (snd (handle_comment col p (Some cluster) b w)) =
                     hydra_writes w)"
    by (cases "telemetry_ebs_account col cluster"; cases "post_account_note_fault col")
       (simp_all add: c comment_try_counter comment_try_notes comment_try_writes inc_def)
  from a b show ?thesis by (rule conjI)
qed

text \<open>
  On the example data: a summary and a comment on cluster \<open>E\<close> each raise its count from 0
  to 1, and the backend was written; the comment is the one note of the account and the
  one write. For cluster \<open>F\<close>, which the lookup does not know, the count stays 0 and the
  backend is not written.
\<close>

theorem comment_counter_counts_successes_witness:
  "reply_target (ex_payload []) = Inr (lit ''C'', 100)
   \<and> comment_counter (snd (handle_set_summary ex_collab (ex_payload []) (Some (lit ''E''))
        (lit ''S'') (ex_world []))) (lit ''E'') = 1
   \<and> hydra_writes (snd (handle_set_summary ex_collab (ex_payload []) (Some (lit ''E''))
        (lit ''S'') (ex_world []))) \<noteq> []
   \<and> comment_counter (snd (handle_comment ex_collab (ex_payload []) (Some (lit ''E''))
        (lit ''S'') (ex_world []))) (lit ''E'') = 1
   \<and> hydra_notes (snd (handle_comment ex_collab (ex_payload []) (Some (lit ''E''))
        (lit ''S'') (ex_world []))) (lit ''A'') = [ex_note 1 (lit ''cluster E: S'') []]
   \<and> length (hydra_writes (snd (handle_comment ex_collab (ex_payload []) (Some (lit ''E''))
        (lit ''S'') (ex_world [])))) = 1
   \<and> comment_counter (snd (handle_set_summary ex_collab (ex_payload []) (Some (lit ''F''))
        (lit ''S'') (ex_world []))) (lit ''F'') = 0
   \<and> comment_counter (snd (handle_comment ex_collab (ex_payload []) (Some (lit ''F''))
        (lit ''S'') (ex_world []))) (lit ''F'') = 0
   \<and> hydra_writes (snd (handle_comment ex_collab (ex_payload []) (Some (lit ''F''))
        (lit ''S'') (ex_world []))) = []"
  using comment_counter_counts_successes [of "ex_payload []" "(lit ''C'', 100)" ex_collab
      "lit ''E''" "lit ''S''" "ex_world []"]
    comment_counter_counts_successes [of "ex_payload []" "(lit ''C'', 100)" ex_collab
      "lit ''F''" "lit ''S''" "ex_world []"]
  by (auto simp add: ex_defs reply_target_def lit_def fresh_id_def split_subject_def
      split_newline_def newline_def)

subsection \<open>C10: retired notes\<close>

text \<open>
  C10: whatever list the backend returns, neither the summary nor any of the related notes
  that \<open>get_notes\<close> returns is retired.
\<close>

theorem get_notes_no_retired:
  assumes "get_notes col cluster account w = Inr (summary, related)"
  shows "(\<forall>n. summary = Some n \<longrightarrow> \<not> isRetired n) \<and> (\<forall>n \<in> set related. \<not> isRetired n)"
proof -
  let ?ns = "hydra_notes w account"
  from assms have s: "scan_notes cluster ?ns [] = (summary, related)"
    by (auto simp add: get_notes_def get_account_notes_def split: option.splits)
  have "summary = find (is_summary cluster) ?ns"
    using s scan_notes_summary [of cluster ?ns "[]"] by simp
  then have a: "\<forall>n. summary = Some n \<longrightarrow> \<not> isRetired n"
    by (auto simp add: find_Some_iff is_summary_def)
  have "related = filter (is_related cluster) (takeWhile (\<lambda>n. \<not> is_summary cluster n) ?ns)"
    using s scan_notes_related [of cluster ?ns "[]"] by simp
  then have b: "\<forall>n \<in> set related. \<not> isRetired n"
    by (auto simp add: is_related_def)
  from a b show ?thesis by blast
qed

text \<open>
  The theorem above on a list with a retired comment and a retired summary.
\<close>

theorem get_notes_no_retired_witness:
  "get_notes ex_collab (lit ''E'') (lit ''A'')
     (ex_world [\<lparr>note_id = 1, subject = lit ''cluster E: gone'', body = lit ''z'', isRetired = True\<rparr>,
                ex_note 2 (lit ''cluster E: disk full'') (lit ''y''),
                \<lparr>note_id = 3, subject = lit ''Summary (cluster E): gone'', body = lit ''x'',
                 isRetired = True\<rparr>,
                ex_note 4 (lit ''Summary (cluster E): now'') (lit ''x'')]) =
     Inr (Some (ex_note 4 (lit ''Summary (cluster E): now'') (lit ''x'')),
          [ex_note 2 (lit ''cluster E: disk full'') (lit ''y'')])
   \<and> \<not> isRetired (ex_note 4 (lit ''Summary (cluster E): now'') (lit ''x''))
   \<and> \<not> isRetired (ex_note 2 (lit ''cluster E: disk full'') (lit ''y''))"
  using get_notes_no_retired [of ex_collab "lit ''E''" "lit ''A''"
      "ex_world [\<lparr>note_id = 1, subject = lit ''cluster E: gone'', body = lit ''z'', isRetired = True\<rparr>,
                ex_note 2 (lit ''cluster E: disk full'') (lit ''y''),
                \<lparr>note_id = 3, subject = lit ''Summary (cluster E): gone'', body = lit ''x'',
                 isRetired = True\<rparr>,
                ex_note 4 (lit ''Summary (cluster E): now'') (lit ''x'')]"
      "Some (ex_note 4 (lit ''Summary (cluster E): now'') (lit ''x''))"
      "[ex_note 2 (lit ''cluster E: disk full'') (lit ''y'')]"]
  by (simp add: ex_defs str_defs op_defs)

section \<open>The deduplicator\<close>

subsection \<open>C3: a repeated timestamp\<close>

text \<open>
  C3, as the code has it. Every timestamp \<open>t\<close> that is not in the set is admitted, at
  whatever time, and the set becomes the old set with \<open>t\<close>, without the entries at or
  below \<open>now - 3600\<close>; so a new timestamp that is itself an hour old or more is dropped
  at once, and a repeated call with it is admitted again. When \<open>t\<close> lies within the hour
  before \<open>now\<close>, a repeated call with \<open>t\<close> is refused whatever the clock says then, and
  leaves the set as it is. Once another timestamp has been admitted at a time when \<open>t\<close> is
  an hour old or more, \<open>t\<close> is admitted again. A message event whose timestamp is refused
  is not dispatched: \<open>handle_message\<close> returns with nothing changed but the mention
  counter and the log.
\<close>

theorem admit_refuses_repeat:
  assumes "t \<notin> recent"
  shows "admit now t recent = (True, {x \<in> insert t recent. now - 60 * 60 < x})
     \<and> (now - 60 * 60 < t \<longrightarrow>
          admit now1 t (snd (admit now t recent)) = (False, snd (admit now t recent)))
     \<and> (t \<le> now - 60 * 60 \<longrightarrow>
          t \<notin> snd (admit now t recent)
          \<and> fst (admit now1 t (snd (admit now t recent))) = True)
     \<and> (t1 \<notin> snd (admit now t recent) \<and> t \<le> now2 - 60 * 60 \<longrightarrow>
          fst (admit now3 t (snd (admit now2 t1 (snd (admit now t recent))))) = True)
     \<and> (now - 60 * 60 < t \<and> data p = Some d \<and> data_subtype d = None
          \<and> data_text d = Some txt \<and> txt \<noteq> []
          \<and> startswith txt (bot_mention cfg) \<and> data_ts d = Some t
          \<and> recent_events w = snd (admit now t recent) \<longrightarrow>
          handle_message cfg col now1 p w =
            (None, (handle_uuid_mention cfg txt w)
               \<lparr>log := log (handle_uuid_mention cfg txt w) @
                  [(DEBUG, lit ''handle_message''),
                   (DEBUG, lit ''uncaught Exception in handle_message'')]\<rparr>))"
proof -
  have a: "admit now t recent = (True, {x \<in> insert t recent. now - 60 * 60 < x})"
    using assms by (simp add: admit_def)
  have m: "now - 60 * 60 < t \<Longrightarrow> t \<in> snd (admit now t recent)"
    using assms by (simp add: admit_def)
  have b: "now - 60 * 60 < t \<longrightarrow>
          admit now1 t (snd (admit now t recent)) = (False, snd (admit now t recent))"
    using m by (simp add: admit_def)
  have b': "t \<le> now - 60 * 60 \<longrightarrow>
          t \<notin> snd (admit now t recent)
          \<and> fst (admit now1 t (snd (admit now t recent))) = True"
    using assms by (auto simp add: admit_def)
  have c: "t1 \<notin> snd (admit now t recent) \<and> t \<le> now2 - 60 * 60 \<longrightarrow>
          fst (admit now3 t (snd (admit now2 t1 (snd (admit now t recent))))) = True"
    by (auto simp add: admit_def)
  have d: "now - 60 * 60 < t \<and> data p = Some d \<and> data_subtype d = None
          \<and> data_text d = Some txt \<and> txt \<noteq> []
          \<and> startswith txt (bot_mention cfg) \<and> data_ts d = Some t
          \<and> recent_events w = snd (admit now t recent) \<longrightarrow>
          handle_message cfg col now1 p w =
            (None, (handle_uuid_mention cfg txt w)
               \<lparr>log := log (handle_uuid_mention cfg txt w) @
                  [(DEBUG, lit ''handle_message''),
                   (DEBUG, lit ''uncaught Exception in handle_message'')]\<rparr>)"
    using m duplicate_not_dispatched [of p d "txt" cfg t w col now1] by simp
  from a b b' c d show ?thesis by blast
qed

text \<open>
  The theorem above at \<open>t = 100\<close>, first admitted at time 100, repeated at time 100000,
  and admitted again after the timestamp 99999 has been admitted at time 100000; on
  the set \<open>{0}\<close> at time 99999, where the admission of 99999 drops the entry 0; and at
  \<open>t = 100\<close> first seen at time 100000, where it is admitted, not kept, and admitted again.
\<close>

theorem admit_refuses_repeat_witness:
  "(100::rat) \<notin> {} \<and> (100::rat) - 60 * 60 < 100
   \<and> admit 100 100 {} = (True, {100})
   \<and> admit 100000 100 (snd (admit 100 100 {})) = (False, {100})
   \<and> fst (admit 100001 100 (snd (admit 100000 99999 (snd (admit 100 100 {}))))) = True
   \<and> (99999::rat) \<notin> {0}
   \<and> admit 99999 99999 {0} = (True, {99999})
   \<and> (100::rat) \<le> 100000 - 60 * 60
   \<and> admit 100000 100 {} = (True, {})
   \<and> admit 100001 100 (snd (admit 100000 100 {})) = (True, {})
   \<and> handle_message (ex_config ex_collab) ex_collab 100000 (ex_payload (lit ''<@B> summary -h''))
       ((ex_world [])\<lparr>recent_events := {100}\<rparr>) =
     (None, (ex_world [])
        \<lparr>recent_events := {100},
         log := [(DEBUG, lit ''handle_message''),
                 (DEBUG, lit ''uncaught Exception in handle_message'')]\<rparr>)"
proof -
  have s0: "{x::rat. x = 100 \<and> - 3500 < x} = {100}"
    by auto
  have s1: "admit 100 100 {} = (True, {100})"
    by (auto simp add: admit_def)
  have s4: "admit 100000 100 {100} = (False, {100})"
    by (simp add: admit_def)
  have s2: "admit 100000 99999 {100} = (True, {99999})"
    by (auto simp add: admit_def)
  have s3: "fst (admit 100001 100 {99999}) = True"
    by (simp add: admit_def)
  have s5: "admit 99999 99999 {0} = (True, {99999})"
    by (auto simp add: admit_def)
  have s6: "admit 100000 100 {} = (True, {})"
    by (auto simp add: admit_def)
  have s7: "admit 100001 100 {} = (True, {})"
    by (auto simp add: admit_def)
  show ?thesis
    using admit_refuses_repeat [of 99999 "{0}" 99999]
      admit_refuses_repeat [of 100 "{}" 100000 100001]
      admit_refuses_repeat [of 100 "{}" 100 100000 99999 100000 100001
      "ex_payload (lit ''<@B> summary -h'')"
      "\<lparr>data_subtype = None, data_text = Some (lit ''<@B> summary -h''), data_ts = Some 100,
        data_channel = lit ''C'', data_thread_ts = None\<rparr>"
      "lit ''<@B> summary -h''" "ex_config ex_collab" "(ex_world [])\<lparr>recent_events := {100}\<rparr>"
      ex_collab]
    by (simp add: s0 s1 s2 s3 s4 s5 s6 s7 ex_payload_def ex_config_def ex_world_def
        startswith_def bot_mention_def handle_uuid_mention_def lit_def)
qed

text \<open>
  C3 as it is worded fails: the set is pruned only when a timestamp is admitted, so a
  timestamp admitted at time 100 is still refused at time 100000, long after its hour has
  passed, when no other timestamp was admitted in between.
\<close>

theorem admit_stale_counterexample:
  "admit 100 100 {} = (True, {100})
   \<and> (100::rat) \<le> 100000 - 60 * 60
   \<and> admit 100000 100 (snd (admit 100 100 {})) = (False, {100})"
  by (auto simp add: admit_def)

section \<open>Intake and dispatch\<close>

subsection \<open>C7: no exception leaves the message handler\<close>

text \<open>
  C7: \<open>handle_message\<close> never raises. When \<open>_handle_message\<close> raises, whether from the
  parser, the dispatch or a handler, \<open>handle_message\<close> returns normally with the state the
  exception left behind and one more line in the log. So the delivery of a sequence of
  events reaches every event: it ends without an exception, in the state that handling the
  events one after the other gives.
\<close>

theorem handle_message_swallows:
  "fst (handle_message cfg col now p w) = None
   \<and> (\<forall>e w1. handle_message' cfg col now p w = (Some e, w1) \<longrightarrow>
        handle_message cfg col now p w =
          (None, w1\<lparr>log := log w1 @ [(DEBUG, lit ''uncaught Exception in handle_message'')]\<rparr>))
   \<and> deliver (on_message cfg) evs w = (None, foldl (\<lambda>w ev. snd (on_message cfg ev w)) w evs)"
proof -
  have "deliver (on_message cfg) evs w = (None, foldl (\<lambda>w ev. snd (on_message cfg ev w)) w evs)"
    by (rule deliver_all) (simp add: on_message_def handle_message_returns)
  then show ?thesis
    by (simp add: handle_message_returns) (simp add: handle_message_def)
qed

text \<open>
  The theorem above on an event whose handler raises a connection error, followed by a
  second event: the error is logged and the second event is handled.
\<close>

theorem handle_message_swallows_witness:
  "handle_message' (ex_config ex_collab_down) ex_collab_down 200
     (ex_payload (lit ''<@B> set-summary E'' @ newline # lit ''S'')) (ex_world []) =
     (Some (OtherException ''ConnectionError''),
      (ex_world [])\<lparr>recent_events := {100}, log := [(DEBUG, lit ''handle_message'')]\<rparr>)
   \<and> handle_message (ex_config ex_collab_down) ex_collab_down 200
       (ex_payload (lit ''<@B> set-summary E'' @ newline # lit ''S'')) (ex_world []) =
     (None,
      (ex_world [])\<lparr>recent_events := {100},
        log := [(DEBUG, lit ''handle_message''),
                (DEBUG, lit ''uncaught Exception in handle_message'')]\<rparr>)
   \<and> deliver (on_message (ex_config ex_collab_down))
       [\<lparr>ev_collab = ex_collab_down, ev_now = 200,
         ev_payload = ex_payload (lit ''<@B> set-summary E'' @ newline # lit ''S'')\<rparr>,
        \<lparr>ev_collab = ex_collab_down, ev_now = 201, ev_payload = ex_payload (lit ''hello'')\<rparr>]
       (ex_world []) =
     (None,
      (ex_world [])\<lparr>recent_events := {100},
        log := [(DEBUG, lit ''handle_message''),
                (DEBUG, lit ''uncaught Exception in handle_message'')]\<rparr>)"
proof -
  have s0: "{t::rat. t = 100 \<and> - 3400 < t} = {100}"
    by auto
  show ?thesis
    using handle_message_swallows [of "ex_config ex_collab_down" ex_collab_down 200
      "ex_payload (lit ''<@B> set-summary E'' @ newline # lit ''S'')" "ex_world []"
      "[\<lparr>ev_collab = ex_collab_down, ev_now = 200,
         ev_payload = ex_payload (lit ''<@B> set-summary E'' @ newline # lit ''S'')\<rparr>,
        \<lparr>ev_collab = ex_collab_down, ev_now = 201, ev_payload = ex_payload (lit ''hello'')\<rparr>]"]
    by (simp add: s0 ex_defs str_defs op_defs intake_defs)
qed

subsection \<open>C8: what the parser outcomes lead to\<close>




end
